theory Spec2Isabelle
  imports Main
begin

section \<open>The configuration editor: syntax trees, diagnostics and text patches\<close>

text \<open>
  A shallow embedding of \<^verbatim>\<open>src/components/ConfigEditor/index.tsx\<close>: the syntax pass
  \<^verbatim>\<open>findErrors\<close>, the semantic pass \<^verbatim>\<open>provideInfoMarkers\<close>, the publish cycle
  \<^verbatim>\<open>parseComponents\<close>, the lens provider \<^verbatim>\<open>provideCodeLenses\<close> and the patch synthesizer
  \<^verbatim>\<open>updateComponent\<close>. The parser (web-tree-sitter), the text editor (Monaco) and the block
  codec (\<^verbatim>\<open>lib/river\<close>) are collaborators whose code is not part of the file; they appear
  as data (a syntax tree with the flags the parser has set) or as parameters (records of
  functions).
\<close>

subsection \<open>Syntax trees\<close>

text \<open>
  A tree-sitter \<^verbatim>\<open>Point\<close> (zero-based row and column) and a \<^verbatim>\<open>SyntaxNode\<close> with what
  the source reads of it: \<^verbatim>\<open>type\<close>, \<^verbatim>\<open>text\<close> (here \<open>nodeText\<close>), \<^verbatim>\<open>startPosition\<close>,
  \<^verbatim>\<open>endPosition\<close> and the children; \<open>isMissing\<close> is what the cursor reports as
  \<^verbatim>\<open>nodeIsMissing\<close>. \<open>isNamed\<close> and \<open>fieldName\<close> (the field of the parent under which
  the node hangs, if any) serve \<^verbatim>\<open>namedChild\<close> and \<^verbatim>\<open>childForFieldName\<close>. \<open>hasError\<close> is
  the parser's error flag of the node, the value that the method \<^verbatim>\<open>hasError()\<close> returns
  when it is called; nothing in the type relates it to the shape of the tree.
\<close>

record Point =
  row :: nat
  column :: nat

datatype SyntaxNode = SyntaxNode
  (type: string)
  (isNamed: bool)
  (isMissing: bool)
  (hasError: bool)
  (fieldName: "string option")
  (nodeText: string)
  (startPosition: Point)
  (endPosition: Point)
  (children: "SyntaxNode list")

lemma size_children: "size_list size (children n) < size n"
  by (cases n) simp

text \<open>All nodes of a tree, in pre-order (the node, then its children left to right).\<close>

fun nodes :: "SyntaxNode \<Rightarrow> SyntaxNode list" where
  "nodes (SyntaxNode t nm ms he fld tx sp ep cs) =
     SyntaxNode t nm ms he fld tx sp ep cs # concat (map nodes cs)"


text \<open>
  The value of a member that is read without being called. The source calls
  \<^verbatim>\<open>cursor.currentNode()\<close> as a method (lines 33 and 36); in the binding of the parser in
  which it is one, \<^verbatim>\<open>hasError\<close> is a method of the node as well. Line 33 reads
  \<^verbatim>\<open>cursor.currentNode().hasError\<close> and negates it without calling it, so the operand of
  \<^verbatim>\<open>!\<close> is the method itself, a function object, and JavaScript takes every object as
  true: the flag of the node does not enter.
\<close>

datatype member_value = Method | Flag bool

fun truthy :: "member_value \<Rightarrow> bool" where
  "truthy Method = True"
| "truthy (Flag b) = b"

definition hasError_member :: "SyntaxNode \<Rightarrow> member_value" where
  "hasError_member n = Method"

text \<open>
  \<^verbatim>\<open>node.childForFieldName(f)\<close>: the first child under field \<open>f\<close>, or null;
  \<^verbatim>\<open>node.namedChild(i)\<close>: the \<open>i\<close>-th named child, or null.
\<close>

definition childForFieldName :: "SyntaxNode \<Rightarrow> string \<Rightarrow> SyntaxNode option" where
  "childForFieldName n f = find (\<lambda>c. fieldName c = Some f) (children n)"

definition namedChild :: "SyntaxNode \<Rightarrow> nat \<Rightarrow> SyntaxNode option" where
  "namedChild n i =
     (let named = filter isNamed (children n)
      in if i < length named then Some (named ! i) else None)"

subsection \<open>Editor data\<close>

text \<open>
  Monaco's \<^verbatim>\<open>IRange\<close>, \<^verbatim>\<open>IMarkerData\<close> (a range with a message and a severity), an edit
  operation (\<^verbatim>\<open>range\<close> and \<^verbatim>\<open>text\<close>, here \<open>range_edit\<close> and \<open>text_edit\<close>) and a search
  result (\<^verbatim>\<open>FindMatch.range\<close>, here \<open>range_match\<close>).
\<close>

datatype MarkerSeverity = Hint | Info | Warning | Error

record IRange =
  startLineNumber :: nat
  startColumn :: nat
  endLineNumber :: nat
  endColumn :: nat

record IMarkerData = IRange +
  message :: string
  severity :: MarkerSeverity

record EditOperation =
  range_edit :: IRange
  text_edit :: string

record FindMatch =
  range_match :: IRange

text \<open>
  The text buffer as \<^verbatim>\<open>updateComponent\<close> and \<^verbatim>\<open>provideCodeLenses\<close> use it: three methods
  of Monaco's \<^verbatim>\<open>ITextModel\<close>, taken as parameters. The arguments of \<open>findMatches\<close> are
  \<^verbatim>\<open>searchString, searchOnlyEditableRange, isRegex, matchCase, wordSeparators,
  captureMatches\<close>.
\<close>

record ITextModel =
  getLineCount :: nat
  getLineMaxColumn :: "nat \<Rightarrow> nat"
  findMatches :: "string \<Rightarrow> bool \<Rightarrow> bool \<Rightarrow> bool \<Rightarrow> string option \<Rightarrow> bool \<Rightarrow> FindMatch list"

record Editor =
  getModel :: "ITextModel option"

text \<open>
  A value that may be a string, \<^verbatim>\<open>null\<close> or \<^verbatim>\<open>undefined\<close>, and its conversion inside a
  template literal \<^verbatim>\<open>`${v}`\<close>.
\<close>

datatype js_value = Undefined | Null | Str string

fun template :: "js_value \<Rightarrow> string" where
  "template Undefined = ''undefined''"
| "template Null = ''null''"
| "template (Str s) = s"

text \<open>
  Modelled from the spec: the class \<^verbatim>\<open>River.Block\<close> is declared in \<^verbatim>\<open>lib/river\<close>, outside
  the file. A block has a name, an optional label, and attributes and nested blocks; the
  source reads \<open>name\<close> and \<open>label\<close> only, so the rest is a type parameter.
\<close>

record 'a Block =
  name :: string
  label :: js_value
  attributes :: 'a

text \<open>
  \<^verbatim>\<open>Component\<close> (a node with the block read from it) and \<^verbatim>\<open>SelectedComponent\<close> (the block
  under edit with its node, \<^verbatim>\<open>null\<close> for a block that is not in the text yet; the
  fields \<^verbatim>\<open>component\<close> and \<^verbatim>\<open>node\<close> are \<open>component_sel\<close> and \<open>node_sel\<close> here).
\<close>

record 'a Component =
  node :: SyntaxNode
  block :: "'a Block"

record 'a SelectedComponent =
  component_sel :: "'a Block"
  node_sel :: "SyntaxNode option"

text \<open>
  \<^verbatim>\<open>parserRef.current\<close>: the parser and the grammar. \<open>parse\<close> is \<^verbatim>\<open>parser.parse(model)\<close>,
  giving the root node (on which \<^verbatim>\<open>tree.walk()\<close> places the cursor); \<open>query_component\<close> is
  \<^verbatim>\<open>river.query(`(config_file (block) @component)`).matches(tree.rootNode)\<close> followed by
  \<^verbatim>\<open>match.captures[0].node\<close>: the captured node of every match, in order.
\<close>

record Parser =
  parse :: "string \<Rightarrow> SyntaxNode"
  query_component :: "SyntaxNode \<Rightarrow> SyntaxNode list"

text \<open>
  The collaborators imported from other modules: the codec \<^verbatim>\<open>River.UnmarshalBlock\<close> and
  \<^verbatim>\<open>Block.marshal\<close>, the semantic rules \<^verbatim>\<open>markersFor\<close>, and the component context's
  \<^verbatim>\<open>setComponents\<close>, which returns the import registry
  (\<^verbatim>\<open>Record<string, ComponentType>\<close>).
\<close>

record ('a, 'c) Env =
  UnmarshalBlock :: "SyntaxNode \<Rightarrow> 'a Block"
  marshal :: "'a Block \<Rightarrow> string"
  markersFor :: "SyntaxNode \<Rightarrow> 'a Block \<Rightarrow> (string \<rightharpoonup> 'c) \<Rightarrow> IMarkerData list"
  setComponents :: "'a Component list \<Rightarrow> (string \<rightharpoonup> 'c)"

record Commands =
  addComponent :: string
  editComponent :: string

record 'a Command =
  id_command :: string
  title :: string
  arguments :: "('a Block \<times> SyntaxNode) option"

record 'a CodeLens =
  range_lens :: IRange
  command :: "'a Command"

text \<open>
  The state of the component: the refs and React state of \<^verbatim>\<open>ConfigEditor\<close>, and what its
  calls leave in the collaborators: \<open>contextComponents\<close> (the argument of the last
  \<^verbatim>\<open>setComponents\<close>), \<open>modelMarkers\<close> (the markers of the editor's model, by owner, as
  \<^verbatim>\<open>setModelMarkers\<close> sets them) and \<open>executedEdits\<close> (the calls of \<^verbatim>\<open>editor.executeEdits\<close>
  in order, each one transaction: its source and its edits).
\<close>

record 'a State =
  parserRef :: "Parser option"
  editorRef :: "Editor option"
  monacoRef :: bool
  commandRef :: "Commands option"
  componentsRef :: "'a Component list"
  contextComponents :: "'a Component list"
  modelMarkers :: "string \<Rightarrow> IMarkerData list"
  parsingTime :: string
  isDrawerOpen :: bool
  currentComponent :: "'a SelectedComponent option"
  executedEdits :: "(string \<times> EditOperation list) list"

datatype error = TypeError

subsection \<open>The syntax pass: \<^verbatim>\<open>findErrors\<close>\<close>

text \<open>
  The two marker literals of \<^verbatim>\<open>findErrors\<close> (lines 38-45 and 48-55), for the node \<open>n\<close>
  under the cursor.
\<close>

definition errorMarker :: "SyntaxNode \<Rightarrow> IMarkerData" where
  "errorMarker n =
     \<lparr>startLineNumber = row (startPosition n) + 1,
      startColumn = column (startPosition n),
      endLineNumber = row (endPosition n) + 1,
      endColumn = column (endPosition n) + 1,
      message = ''unable to parse'',
      severity = Error\<rparr>"

definition missingMarker :: "SyntaxNode \<Rightarrow> IMarkerData" where
  "missingMarker n =
     \<lparr>startLineNumber = row (startPosition n) + 1,
      startColumn = column (startPosition n),
      endLineNumber = row (endPosition n) + 1,
      endColumn = column (endPosition n) + 1,
      message = ''Missing '' @ type n,
      severity = Error\<rparr>"

text \<open>
  The tree cursor: the node it is at, the siblings to the right of that node, and the
  ancestors, nearest first, each with the siblings to its own right. \<^verbatim>\<open>tree.walk()\<close>
  places it at the root. The three moves return whether they moved, as the methods do.
\<close>

record TreeCursor =
  current :: SyntaxNode
  following :: "SyntaxNode list"
  above :: "(SyntaxNode \<times> SyntaxNode list) list"

definition walk :: "SyntaxNode \<Rightarrow> TreeCursor" where
  "walk root = \<lparr>current = root, following = [], above = []\<rparr>"

definition gotoFirstChild :: "TreeCursor \<Rightarrow> bool \<times> TreeCursor" where
  "gotoFirstChild c =
     (case children (current c) of
        [] \<Rightarrow> (False, c)
      | k # ks \<Rightarrow> (True, \<lparr>current = k, following = ks,
                          above = (current c, following c) # above c\<rparr>))"

definition gotoNextSibling :: "TreeCursor \<Rightarrow> bool \<times> TreeCursor" where
  "gotoNextSibling c =
     (case following c of
        [] \<Rightarrow> (False, c)
      | r # rs \<Rightarrow> (True, c\<lparr>current := r, following := rs\<rparr>))"

definition gotoParent :: "TreeCursor \<Rightarrow> bool \<times> TreeCursor" where
  "gotoParent c =
     (case above c of
        [] \<Rightarrow> (False, c)
      | (p, ps) # as \<Rightarrow> (True, \<lparr>current = p, following = ps, above = as\<rparr>))"

text \<open>
  \<^verbatim>\<open>findErrors\<close> statement by statement, with the cursor passed along and returned.
  \<open>findErrors_cursor\<close> is the function as it is entered: the test of line 33 on the
  member \<^verbatim>\<open>hasError\<close> of the node under the cursor, then the loop with \<^verbatim>\<open>errs\<close> empty.
  \<open>findErrors_while\<close> is one round of \<^verbatim>\<open>while (true)\<close>: the two pushes, the descent with
  the recursive call and \<^verbatim>\<open>gotoParent()\<close>, then \<^verbatim>\<open>gotoNextSibling()\<close>, which ends the loop
  when it fails. The first argument is fuel, one unit for every call and every round;
  \<open>None\<close> means that it ran out.
\<close>

fun findErrors_cursor :: "nat \<Rightarrow> TreeCursor \<Rightarrow> (IMarkerData list \<times> TreeCursor) option"
  and findErrors_while ::
    "nat \<Rightarrow> IMarkerData list \<Rightarrow> TreeCursor \<Rightarrow> (IMarkerData list \<times> TreeCursor) option" where
  "findErrors_cursor 0 c = None"
| "findErrors_cursor (Suc k) c =
     (if \<not> truthy (hasError_member (current c)) then Some ([], c)
      else findErrors_while k [] c)"
| "findErrors_while 0 errs c = None"
| "findErrors_while (Suc k) errs c =
     (let n = current c;
          errs1 = errs @ (if type n = ''ERROR'' then [errorMarker n] else []);
          errs2 = errs1 @ (if isMissing n then [missingMarker n] else [])
      in case (case gotoFirstChild c of
                 (True, c1) \<Rightarrow>
                   (case findErrors_cursor k c1 of
                      None \<Rightarrow> None
                    | Some (es, c2) \<Rightarrow> Some (errs2 @ es, snd (gotoParent c2)))
               | (False, c1) \<Rightarrow> Some (errs2, c1)) of
           None \<Rightarrow> None
         | Some (errs3, c3) \<Rightarrow>
             (case gotoNextSibling c3 of
                (True, c4) \<Rightarrow> findErrors_while k errs3 c4
              | (False, c4) \<Rightarrow> Some (errs3, c4)))"

text \<open>
  What \<^verbatim>\<open>findErrors\<close> returns, as a function of the node under the cursor and the siblings
  to its right (the list \<open>current c # following c\<close>): \<open>findErrors\<close> for the function as
  it is entered, \<open>findErrors_loop\<close> for the loop. \<^verbatim>\<open>gotoNextSibling()\<close> moves to the tail of
  the list, \<^verbatim>\<open>gotoFirstChild()\<close> to the list of the children, and \<^verbatim>\<open>gotoParent()\<close> comes
  back to the list the call was made from. The cursor program above returns this list of
  markers on every tree once it has fuel enough (\<open>findErrors_cursor_agrees\<close> below), so
  the rest of the development uses it: \<^verbatim>\<open>findErrors(tree.walk())\<close> is \<open>findErrors [root]\<close>.
\<close>

function findErrors :: "SyntaxNode list \<Rightarrow> IMarkerData list"
  and findErrors_loop :: "SyntaxNode list \<Rightarrow> IMarkerData list" where
  "findErrors [] = []"
| "findErrors (n # sibs) =
     (if \<not> truthy (hasError_member n) then [] else findErrors_loop (n # sibs))"
| "findErrors_loop [] = []"
| "findErrors_loop (n # sibs) =
     (if type n = ''ERROR'' then [errorMarker n] else [])
     @ (if isMissing n then [missingMarker n] else [])
     @ (if children n \<noteq> [] then findErrors (children n) else [])
     @ (if sibs \<noteq> [] then findErrors_loop sibs else [])"
  by pat_completeness auto
termination
proof (relation "measure (\<lambda>x. case x of Inl ns \<Rightarrow> 2 * size_list size ns + 1
                                    | Inr ns \<Rightarrow> 2 * size_list size ns)", goal_cases)
  case 1
  show ?case by simp
next
  case (2 n sibs)
  show ?case by simp
next
  case (3 n sibs)
  show ?case using size_children[of n] by simp
next
  case (4 n sibs)
  show ?case by simp
qed

subsection \<open>The semantic pass: \<^verbatim>\<open>provideInfoMarkers\<close>\<close>

definition provideInfoMarkers ::
  "('a, 'c) Env \<Rightarrow> 'a Component list \<Rightarrow> (string \<rightharpoonup> 'c) \<Rightarrow> IMarkerData list" where
  "provideInfoMarkers env components imports =
     concat (map (\<lambda>c. markersFor env (node c) (block c) imports) components)"

subsection \<open>The publish cycle: \<^verbatim>\<open>parseComponents\<close>\<close>

text \<open>
  \<^verbatim>\<open>monaco.editor.setModelMarkers(model, owner, markers)\<close>: Monaco sets the markers of the
  owner for the model to the list it is given.
\<close>

definition setModelMarkers :: "string \<Rightarrow> IMarkerData list \<Rightarrow> 'a State \<Rightarrow> 'a State" where
  "setModelMarkers owner markers s = s\<lparr>modelMarkers := (modelMarkers s)(owner := markers)\<rparr>"

text \<open>
  \<^verbatim>\<open>parseComponents\<close> closes over the text \<open>model\<close> of the render that created it. The two
  readings of \<^verbatim>\<open>performance.now()\<close> enter as \<open>duration\<close>, the formatted difference. With no
  parser the function returns at once (line 105). The markers are set when the editor is
  mounted and has a model (\<^verbatim>\<open>editorRef.current?.getModel()\<close>) and \<^verbatim>\<open>monacoRef.current\<close> is
  set.
\<close>

definition parseComponents ::
  "('a, 'c) Env \<Rightarrow> string \<Rightarrow> string \<Rightarrow> 'a State \<Rightarrow> 'a State" where
  "parseComponents env model duration s =
     (case parserRef s of
        None \<Rightarrow> s
      | Some p \<Rightarrow>
          let root = parse p model;
              matches = query_component p root;
              components = map (\<lambda>n. \<lparr>node = n, block = UnmarshalBlock env n\<rparr>) matches;
              s1 = s\<lparr>componentsRef := components\<rparr>;
              imports = setComponents env components;
              s2 = s1\<lparr>contextComponents := components\<rparr>;
              errs = findErrors [root];
              infos = provideInfoMarkers env components imports;
              mmdl = (case editorRef s2 of None \<Rightarrow> None | Some editor \<Rightarrow> getModel editor);
              s3 = (case mmdl of
                      None \<Rightarrow> s2
                    | Some m \<Rightarrow> if monacoRef s2 then setModelMarkers ''ts'' (errs @ infos) s2 else s2)
          in s3\<lparr>parsingTime := duration\<rparr>)"

text \<open>
  The effect that loads the grammar (lines 132-145): when both \<^verbatim>\<open>await\<close>s have completed
  with the parser \<open>p\<close>, it stores \<open>p\<close> in \<^verbatim>\<open>parserRef\<close> and calls the \<^verbatim>\<open>parseComponents\<close> it
  closed over.
\<close>

definition parserInit ::
  "('a, 'c) Env \<Rightarrow> Parser \<Rightarrow> string \<Rightarrow> string \<Rightarrow> 'a State \<Rightarrow> 'a State" where
  "parserInit env p model duration s = parseComponents env model duration (s\<lparr>parserRef := Some p\<rparr>)"

subsection \<open>Mounting, commands and lenses\<close>

text \<open>
  \<^verbatim>\<open>handleEditorDidMount\<close>, as far as the refs go (the themes are left out): the ids of
  the two commands \<^verbatim>\<open>editor.addCommand\<close> returned, the editor and the Monaco namespace.
\<close>

definition handleEditorDidMount :: "Editor \<Rightarrow> Commands \<Rightarrow> 'a State \<Rightarrow> 'a State" where
  "handleEditorDidMount editor cmds s =
     s\<lparr>commandRef := Some cmds, editorRef := Some editor, monacoRef := True\<rparr>"

text \<open>The handlers of the two commands, and \<^verbatim>\<open>insertComponent\<close> of the component list.\<close>

definition addComponentCommand :: "'a State \<Rightarrow> 'a State" where
  "addComponentCommand s = s\<lparr>currentComponent := None, isDrawerOpen := True\<rparr>"

definition editComponentCommand :: "'a Block \<Rightarrow> SyntaxNode \<Rightarrow> 'a State \<Rightarrow> 'a State" where
  "editComponentCommand c n s =
     s\<lparr>currentComponent := Some \<lparr>component_sel = c, node_sel = Some n\<rparr>, isDrawerOpen := True\<rparr>"

definition insertComponent :: "'a Block \<Rightarrow> 'a State \<Rightarrow> 'a State" where
  "insertComponent c s = s\<lparr>currentComponent := Some \<lparr>component_sel = c, node_sel = None\<rparr>\<rparr>"

text \<open>
  \<^verbatim>\<open>provideCodeLenses\<close>: \<open>None\<close> is the \<^verbatim>\<open>undefined\<close> of line 151, \<open>Some\<close> holds the
  \<^verbatim>\<open>lenses\<close> of the returned object. The test of line 174 never fires, an array being
  truthy. \<open>lensRange\<close> is the range literal of lines 178-183.
\<close>

definition lensRange :: "SyntaxNode \<Rightarrow> IRange" where
  "lensRange n =
     \<lparr>startLineNumber = row (startPosition n) + 1,
      startColumn = column (startPosition n),
      endLineNumber = row (endPosition n) + 1,
      endColumn = column (endPosition n)\<rparr>"

definition provideCodeLenses ::
  "('a, 'c) Env \<Rightarrow> 'a State \<Rightarrow> ITextModel \<Rightarrow> 'a CodeLens list option" where
  "provideCodeLenses env s model =
     (case commandRef s of
        None \<Rightarrow> None
      | Some cmds \<Rightarrow>
          let lastLine = getLineCount model;
              lenses =
                [\<lparr>range_lens = \<lparr>startLineNumber = lastLine, startColumn = 1,
                                 endLineNumber = lastLine, endColumn = 1\<rparr>,
                  command = \<lparr>id_command = addComponent cmds, title = ''Add Component'',
                              arguments = None\<rparr>\<rparr>]
          in (case parserRef s of
                None \<Rightarrow> Some lenses
              | Some p \<Rightarrow>
                  Some (lenses @
                    map (\<lambda>c. \<lparr>range_lens = lensRange (node c),
                               command = \<lparr>id_command = editComponent cmds,
                                           title = ''Edit Component'',
                                           arguments = Some (UnmarshalBlock env (node c), node c)\<rparr>\<rparr>)
                      (componentsRef s))))"

subsection \<open>The patch synthesizer: \<^verbatim>\<open>updateComponent\<close>\<close>

text \<open>
  \<^verbatim>\<open>editor.executeEdits(source, edits)\<close> and \<^verbatim>\<open>setDrawerOpen\<close>. The state keeps the
  call; how Monaco applies the edits of a transaction to the buffer is outside the file.
\<close>

definition executeEdits :: "string \<Rightarrow> EditOperation list \<Rightarrow> 'a State \<Rightarrow> 'a State" where
  "executeEdits source edits s = s\<lparr>executedEdits := executedEdits s @ [(source, edits)]\<rparr>"

definition setDrawerOpen :: "bool \<Rightarrow> 'a State \<Rightarrow> 'a State" where
  "setDrawerOpen b s = s\<lparr>isDrawerOpen := b\<rparr>"

text \<open>
  \<open>replaceRange\<close> is the range literal of lines 293-298; \<open>oldLabel\<close> is line 302,
  \<^verbatim>\<open>node.childForFieldName("label")?.namedChild(0)?.text\<close>, which is \<^verbatim>\<open>undefined\<close> when the
  node has no label field or the label has no named child.
\<close>

definition replaceRange :: "SyntaxNode \<Rightarrow> IRange" where
  "replaceRange n =
     \<lparr>startLineNumber = row (startPosition n) + 1,
      startColumn = column (startPosition n),
      endLineNumber = row (endPosition n) + 1,
      endColumn = column (endPosition n) + 1\<rparr>"

definition oldLabel :: "SyntaxNode \<Rightarrow> js_value" where
  "oldLabel n =
     (case childForFieldName n ''label'' of
        None \<Rightarrow> Undefined
      | Some l \<Rightarrow> (case namedChild l 0 of None \<Rightarrow> Undefined | Some c \<Rightarrow> Str (nodeText c)))"

text \<open>
  \<^verbatim>\<open>updateComponent\<close>. The non-null assertions of lines 284-285 do not check anything at
  run time: with no editor \<^verbatim>\<open>editor.getModel()\<close> throws a \<^verbatim>\<open>TypeError\<close>, and with no model
  the first call on \<^verbatim>\<open>model\<close> does, which is reached only past the test of
  \<^verbatim>\<open>currentComponent\<close> and before any edit is executed.
\<close>

definition updateComponent ::
  "('a, 'c) Env \<Rightarrow> 'a Block \<Rightarrow> 'a State \<Rightarrow> error + 'a State" where
  "updateComponent env component s =
     (case editorRef s of
        None \<Rightarrow> Inl TypeError
      | Some editor \<Rightarrow>
          (case currentComponent s of
             None \<Rightarrow> Inr s
           | Some cur \<Rightarrow>
               (case getModel editor of
                  None \<Rightarrow> Inl TypeError
                | Some model \<Rightarrow>
                    (case node_sel cur of
                       Some n \<Rightarrow>
                         let edits = [\<lparr>range_edit = replaceRange n, text_edit = marshal env component\<rparr>];
                             oldRef = name component @ ''.'' @ template (oldLabel n);
                             existingRefs = findMatches model oldRef True False True None False;
                             edits' = edits @
                               map (\<lambda>ref. \<lparr>range_edit = range_match ref,
                                            text_edit = name component @ ''.'' @ template (label component)\<rparr>)
                                 existingRefs
                         in Inr (setDrawerOpen False (executeEdits ''configuration-editor'' edits' s))
                     | None \<Rightarrow>
                         let lastLine = getLineCount model;
                             column' = getLineMaxColumn model lastLine
                         in Inr (setDrawerOpen False
                              (executeEdits ''configuration-editor''
                                 [\<lparr>range_edit = \<lparr>startLineNumber = getLineCount model,
                                                  startColumn = column',
                                                  endLineNumber = getLineCount model,
                                                  endColumn = column'\<rparr>,
                                   text_edit = marshal env component @ [CHR 0x0A]\<rparr>] s))))))"

subsection \<open>Observing the edits\<close>

text \<open>
  The edits of the last transaction a call of \<open>updateComponent\<close> has left (none when it
  threw or when nothing was ever executed).
\<close>

definition issuedEdits :: "error + 'a State \<Rightarrow> EditOperation list" where
  "issuedEdits r =
     (case r of
        Inl e \<Rightarrow> []
      | Inr s \<Rightarrow> (case rev (executedEdits s) of [] \<Rightarrow> [] | t # ts \<Rightarrow> snd t))"

text \<open>The nodes of a list of trees, in pre-order.\<close>

definition forest_nodes :: "SyntaxNode list \<Rightarrow> SyntaxNode list" where
  "forest_nodes ns = concat (map nodes ns)"

subsection \<open>A text buffer and sample documents\<close>

text \<open>
  Modelled from the spec: Monaco's text model is not part of the sources. A buffer is the
  list of its lines; lines and columns count from 1; the maximal column of a line is its
  length plus one; a literal, case-sensitive search returns the range of every occurrence
  of a non-empty search string, line by line and left to right. It instantiates the
  parameter \<open>ITextModel\<close> in the concrete instances below; the theorems about
  \<open>updateComponent\<close> hold for every text model.
\<close>

fun occurrences :: "string \<Rightarrow> string \<Rightarrow> nat \<Rightarrow> nat list" where
  "occurrences pat [] col = []"
| "occurrences pat (c # cs) col =
     (if take (length pat) (c # cs) = pat then [col] else []) @ occurrences pat cs (Suc col)"

definition lineMatches :: "string \<Rightarrow> nat \<Rightarrow> string \<Rightarrow> FindMatch list" where
  "lineMatches pat l line =
     map (\<lambda>c. \<lparr>range_match = \<lparr>startLineNumber = l, startColumn = c,
                                endLineNumber = l, endColumn = c + length pat\<rparr>\<rparr>)
       (occurrences pat line 1)"

definition textModel :: "string list \<Rightarrow> ITextModel" where
  "textModel ls =
     \<lparr>getLineCount = length ls,
      getLineMaxColumn = (\<lambda>l. if 1 \<le> l \<and> l \<le> length ls then length (ls ! (l - 1)) + 1 else 1),
      findMatches = (\<lambda>searchString searchOnlyEditableRange isRegex matchCase wordSeparators captureMatches.
        if searchString \<noteq> [] \<and> \<not> isRegex \<and> matchCase
        then concat (map (\<lambda>(i, line). lineMatches searchString (Suc i) line) (enumerate 0 ls))
        else [])\<rparr>"

definition pt :: "nat \<Rightarrow> nat \<Rightarrow> Point" where
  "pt r c = \<lparr>row = r, column = c\<rparr>"

text \<open>A node without children and without error, and the double quote.\<close>

definition leaf :: "string \<Rightarrow> bool \<Rightarrow> string option \<Rightarrow> string \<Rightarrow> Point \<Rightarrow> Point \<Rightarrow> SyntaxNode" where
  "leaf t nm fld tx sp ep = SyntaxNode t nm False False fld tx sp ep []"

definition dq :: string where
  "dq = [CHR 0x22]"

text \<open>
  Document A, two lines: a well-formed block, then a stray closing brace that the parser
  wraps in an ERROR node.
  \<^verbatim>\<open>
  a { }
  }
  \<close>
\<close>

definition blockA :: SyntaxNode where
  "blockA = SyntaxNode ''block'' True False False None ''a { }'' (pt 0 0) (pt 0 5)
     [leaf ''identifier'' True (Some ''name'') ''a'' (pt 0 0) (pt 0 1),
      leaf ''{'' False None ''{'' (pt 0 2) (pt 0 3),
      leaf ''}'' False None ''}'' (pt 0 4) (pt 0 5)]"



text \<open>
  Document B, three lines: a well-formed block, an ERROR region, and a block whose
  closing brace is missing (the parser inserts a missing node of type \<open>}\<close>, of width
  zero, at the end of the line).
  \<^verbatim>\<open>
  a { }
  = =
  b {
  \<close>
\<close>

definition errorB :: SyntaxNode where
  "errorB = SyntaxNode ''ERROR'' True False True None ''= ='' (pt 1 0) (pt 1 3)
     [leaf ''='' False None ''='' (pt 1 0) (pt 1 1),
      leaf ''='' False None ''='' (pt 1 2) (pt 1 3)]"

definition missingB :: SyntaxNode where
  "missingB = SyntaxNode ''}'' False True True None [] (pt 2 3) (pt 2 3) []"

definition blockB :: SyntaxNode where
  "blockB = SyntaxNode ''block'' True False True None ''b {'' (pt 2 0) (pt 2 3)
     [leaf ''identifier'' True (Some ''name'') ''b'' (pt 2 0) (pt 2 1),
      leaf ''{'' False None ''{'' (pt 2 2) (pt 2 3),
      missingB]"

definition documentB :: SyntaxNode where
  "documentB = SyntaxNode ''config_file'' True False True None ''a { }'' (pt 0 0) (pt 2 3)
     [blockA, errorB, blockB]"

text \<open>
  Document C, two lines, without errors: the block \<open>b\<close> labelled \<open>bar\<close> and a block
  that refers to it.
  \<^verbatim>\<open>
  b "bar" { }
  a "foo" { x = b.bar.y }
  \<close>
\<close>

definition linesC :: "string list" where
  "linesC = [''b '' @ dq @ ''bar'' @ dq @ '' { }'',
             ''a '' @ dq @ ''foo'' @ dq @ '' { x = b.bar.y }'']"

definition textC :: string where
  "textC = linesC ! 0 @ [CHR 0x0A] @ linesC ! 1"

definition blockBar :: SyntaxNode where
  "blockBar = SyntaxNode ''block'' True False False None (linesC ! 0) (pt 0 0) (pt 0 11)
     [leaf ''identifier'' True (Some ''name'') ''b'' (pt 0 0) (pt 0 1),
      SyntaxNode ''string'' True False False (Some ''label'') (dq @ ''bar'' @ dq) (pt 0 2) (pt 0 7)
        [leaf dq False None dq (pt 0 2) (pt 0 3),
         leaf ''string_content'' True None ''bar'' (pt 0 3) (pt 0 6),
         leaf dq False None dq (pt 0 6) (pt 0 7)],
      leaf ''{'' False None ''{'' (pt 0 8) (pt 0 9),
      leaf ''}'' False None ''}'' (pt 0 10) (pt 0 11)]"

definition blockFoo :: SyntaxNode where
  "blockFoo = SyntaxNode ''block'' True False False None (linesC ! 1) (pt 1 0) (pt 1 23)
     [leaf ''identifier'' True (Some ''name'') ''a'' (pt 1 0) (pt 1 1),
      SyntaxNode ''string'' True False False (Some ''label'') (dq @ ''foo'' @ dq) (pt 1 2) (pt 1 7)
        [leaf dq False None dq (pt 1 2) (pt 1 3),
         leaf ''string_content'' True None ''foo'' (pt 1 3) (pt 1 6),
         leaf dq False None dq (pt 1 6) (pt 1 7)],
      leaf ''{'' False None ''{'' (pt 1 8) (pt 1 9),
      leaf ''attribute'' True None ''x = b.bar.y'' (pt 1 10) (pt 1 21),
      leaf ''}'' False None ''}'' (pt 1 22) (pt 1 23)]"

definition documentC :: SyntaxNode where
  "documentC = SyntaxNode ''config_file'' True False False None textC (pt 0 0) (pt 1 23)
     [blockBar, blockFoo]"

text \<open>
  Document D, two lines: an ERROR region first, then a block without label.
  \<^verbatim>\<open>
  = =
  c { }
  \<close>
\<close>

definition textD :: string where
  "textD = ''= ='' @ [CHR 0x0A] @ ''c { }''"

definition errorD :: SyntaxNode where
  "errorD = SyntaxNode ''ERROR'' True False True None ''= ='' (pt 0 0) (pt 0 3)
     [leaf ''='' False None ''='' (pt 0 0) (pt 0 1),
      leaf ''='' False None ''='' (pt 0 2) (pt 0 3)]"

definition blockD :: SyntaxNode where
  "blockD = SyntaxNode ''block'' True False False None ''c { }'' (pt 1 0) (pt 1 5)
     [leaf ''identifier'' True (Some ''name'') ''c'' (pt 1 0) (pt 1 1),
      leaf ''{'' False None ''{'' (pt 1 2) (pt 1 3),
      leaf ''}'' False None ''}'' (pt 1 4) (pt 1 5)]"

definition documentD :: SyntaxNode where
  "documentD = SyntaxNode ''config_file'' True False True None textD (pt 0 0) (pt 1 5)
     [errorD, blockD]"

text \<open>
  Modelled from the spec: the query engine of tree-sitter is not part of the sources.
  The query \<^verbatim>\<open>(config_file (block) @component)\<close> is ``the structural query that selects
  every direct child block of the document root'': the named children of type \<open>block\<close>
  of a root of type \<open>config_file\<close>, in their order.
\<close>

definition direct_child_blocks :: "SyntaxNode \<Rightarrow> SyntaxNode list" where
  "direct_child_blocks root =
     (if type root = ''config_file''
      then filter (\<lambda>c. isNamed c \<and> type c = ''block'') (children root)
      else [])"

text \<open>
  Sample collaborators for the concrete instances. The parser knows documents C and D
  and answers the query by \<open>direct_child_blocks\<close>. The codec reads the name and the label
  of a node and prints a header with an empty body; the semantic rule gives one
  informational marker to a block whose name is not in the registry; the registry knows
  the kinds \<open>a\<close> and \<open>b\<close>.
\<close>

definition exampleParser :: Parser where
  "exampleParser =
     \<lparr>parse = (\<lambda>t. if t = textC then documentC else if t = textD then documentD
                     else SyntaxNode ''config_file'' True False False None t (pt 0 0) (pt 0 0) []),
      query_component = direct_child_blocks\<rparr>"

definition unknownKindMarker :: "SyntaxNode \<Rightarrow> string \<Rightarrow> IMarkerData" where
  "unknownKindMarker n k =
     \<lparr>startLineNumber = row (startPosition n) + 1, startColumn = 1,
      endLineNumber = row (startPosition n) + 1, endColumn = 1 + length k,
      message = ''unknown component '' @ k, severity = Info\<rparr>"

definition exampleEnv :: "(unit, unit) Env" where
  "exampleEnv =
     \<lparr>UnmarshalBlock = (\<lambda>n. \<lparr>name = (case childForFieldName n ''name'' of
                                           None \<Rightarrow> [] | Some c \<Rightarrow> nodeText c),
                               label = (case oldLabel n of Undefined \<Rightarrow> Null | v \<Rightarrow> v),
                               attributes = ()\<rparr>),
      marshal = (\<lambda>b. name b @ (case label b of Str l \<Rightarrow> '' '' @ dq @ l @ dq | v \<Rightarrow> []) @ '' { }''),
      markersFor = (\<lambda>n b imports. case imports (name b) of
                                     None \<Rightarrow> [unknownKindMarker n (name b)]
                                   | Some k \<Rightarrow> []),
      setComponents = (\<lambda>cs. [''a'' \<mapsto> (), ''b'' \<mapsto> ()])\<rparr>"

text \<open>
  The state before the editor is mounted and before the grammar is loaded, and the state
  once the editor is mounted on a buffer with the given lines.
\<close>

definition initialState :: "unit State" where
  "initialState =
     \<lparr>parserRef = None, editorRef = None, monacoRef = False, commandRef = None,
      componentsRef = [], contextComponents = [], modelMarkers = (\<lambda>owner. []),
      parsingTime = ''0'', isDrawerOpen = False, currentComponent = None,
      executedEdits = []\<rparr>"

definition mounted :: "string list \<Rightarrow> unit State" where
  "mounted ls =
     handleEditorDidMount \<lparr>getModel = Some (textModel ls)\<rparr>
       \<lparr>addComponent = ''1'', editComponent = ''2''\<rparr> initialState"

text \<open>
  Sample edits on document C: the block \<open>b\<close> with its label changed to \<open>baz\<close>, a new
  block \<open>c\<close>, and the state in which the lens of block \<open>b\<close> has opened the form.
\<close>

definition blockBaz :: "unit Block" where
  "blockBaz = \<lparr>name = ''b'', label = Str ''baz'', attributes = ()\<rparr>"

definition blockNew :: "unit Block" where
  "blockNew = \<lparr>name = ''c'', label = Str ''new'', attributes = ()\<rparr>"

definition editingBar :: "unit State" where
  "editingBar = editComponentCommand (UnmarshalBlock exampleEnv blockBar) blockBar (mounted linesC)"

text \<open>
  The editor mounted on document D with the grammar loaded, and a marker left by an
  earlier cycle.
\<close>

definition staleMarker :: IMarkerData where
  "staleMarker =
     \<lparr>startLineNumber = 7, startColumn = 0, endLineNumber = 7, endColumn = 1,
      message = ''unable to parse'', severity = Error\<rparr>"

definition readyD :: "unit State" where
  "readyD = (mounted [''= ='', ''c { }''])
              \<lparr>parserRef := Some exampleParser, modelMarkers := (\<lambda>owner. [staleMarker])\<rparr>"

section \<open>Properties\<close>

lemmas node_defs = leaf_def pt_def dq_def

subsection \<open>The syntax pass\<close>

text \<open>The test of line 33 is never true: the operand of \<^verbatim>\<open>!\<close> is a function object.\<close>

lemma line33_never_returns [simp]: "truthy (hasError_member n)"
  by (simp add: hasError_member_def)

text \<open>
  The cursor program and the function on sibling lists agree: with enough fuel the
  program returns the markers \<open>findErrors\<close> gives for the node under the cursor and its
  right siblings, and leaves the cursor at the last of these siblings. In particular it
  terminates on every tree, and from the root it comes back to the root.
\<close>

lemma findErrors_while_Suc:
  "findErrors_while (Suc k) errs c =
     (let errs2 = errs @ (if type (current c) = ''ERROR'' then [errorMarker (current c)] else [])
                       @ (if isMissing (current c) then [missingMarker (current c)] else [])
      in case (case children (current c) of
                 [] \<Rightarrow> Some (errs2, c)
               | kid # kids \<Rightarrow>
                   (case findErrors_cursor k
                           \<lparr>current = kid, following = kids,
                            above = (current c, following c) # above c\<rparr> of
                      None \<Rightarrow> None
                    | Some (es, c2) \<Rightarrow> Some (errs2 @ es, snd (gotoParent c2)))) of
           None \<Rightarrow> None
         | Some (errs3, c3) \<Rightarrow>
             (case following c3 of
                [] \<Rightarrow> Some (errs3, c3)
              | r # rs \<Rightarrow> findErrors_while k errs3 (c3\<lparr>current := r, following := rs\<rparr>)))"
  by (simp add: Let_def gotoFirstChild_def gotoNextSibling_def split: list.splits option.splits)

lemma cursor_agrees:
  shows "current c # following c = ns \<Longrightarrow>
           \<exists>k. \<forall>k' \<ge> k. findErrors_cursor k' c =
             Some (findErrors ns, c\<lparr>current := last ns, following := []\<rparr>)"
    and "current c # following c = ns \<Longrightarrow>
           \<exists>k. \<forall>k' \<ge> k. \<forall>errs. findErrors_while k' errs c =
             Some (errs @ findErrors_loop ns, c\<lparr>current := last ns, following := []\<rparr>)"
proof (induction ns and ns arbitrary: c and c rule: findErrors_findErrors_loop.induct)
  case 1
  then show ?case by simp
next
  case (2 n sibs)
  from 2(2) have cur: "current c = n" "following c = sibs" by simp_all
  have "\<not> \<not> truthy (hasError_member n)" by simp
  from 2(1)[OF this 2(2)] obtain k where k: "\<forall>k' \<ge> k. \<forall>errs. findErrors_while k' errs c =
           Some (errs @ findErrors_loop (n # sibs), c\<lparr>current := last (n # sibs), following := []\<rparr>)"
    by blast
  have "\<forall>k' \<ge> Suc k. findErrors_cursor k' c =
      Some (findErrors (n # sibs), c\<lparr>current := last (n # sibs), following := []\<rparr>)"
  proof (intro allI impI)
    fix k' :: nat assume "Suc k \<le> k'"
    then obtain j where j: "k' = Suc j" "k \<le> j" by (cases k') auto
    from k j(2) have "findErrors_while j [] c =
        Some ([] @ findErrors_loop (n # sibs), c\<lparr>current := last (n # sibs), following := []\<rparr>)"
      by blast
    with cur j(1) show "findErrors_cursor k' c =
      Some (findErrors (n # sibs), c\<lparr>current := last (n # sibs), following := []\<rparr>)"
      by (simp del: findErrors_loop.simps)
  qed
  then show ?case by blast
next
  case 3
  then show ?case by simp
next
  case (4 n sibs)
  from 4(3) have cur: "current c = n" "following c = sibs" by simp_all
  let ?kids = "if children n \<noteq> [] then findErrors (children n) else []"
  \<comment> \<open>the children: some fuel gives their markers and brings the cursor back to \<open>n\<close>\<close>
  have kids: "\<exists>k1. \<forall>k' \<ge> k1. \<forall>errs2.
      (case children (current c) of
         [] \<Rightarrow> Some (errs2, c)
       | kid # kids \<Rightarrow>
           (case findErrors_cursor k'
                   \<lparr>current = kid, following = kids,
                    above = (current c, following c) # above c\<rparr> of
              None \<Rightarrow> None
            | Some (es, c2) \<Rightarrow> Some (errs2 @ es, snd (gotoParent c2))))
      = Some (errs2 @ ?kids, c)"
  proof (cases "children n")
    case Nil
    with cur show ?thesis by simp
  next
    case (Cons kid kids)
    let ?c1 = "\<lparr>current = kid, following = kids, above = (n, sibs) # above c\<rparr>"
    have ne: "children n \<noteq> []" using Cons by simp
    have "current ?c1 # following ?c1 = children n" using Cons by simp
    from 4(1)[OF ne this] obtain k1 where k1: "\<forall>k' \<ge> k1. findErrors_cursor k' ?c1 =
        Some (findErrors (children n), ?c1\<lparr>current := last (children n), following := []\<rparr>)"
      by blast
    have up: "snd (gotoParent (?c1\<lparr>current := last (children n), following := []\<rparr>)) = c"
      using cur by (simp add: gotoParent_def)
    show ?thesis
    proof (intro exI[of _ k1] allI impI)
      fix k' errs2 assume "k1 \<le> k'"
      with k1 have "findErrors_cursor k' ?c1 =
        Some (findErrors (children n), ?c1\<lparr>current := last (children n), following := []\<rparr>)"
        by blast
      with up ne show "(case children (current c) of
         [] \<Rightarrow> Some (errs2, c)
       | kid # kids \<Rightarrow>
           (case findErrors_cursor k'
                   \<lparr>current = kid, following = kids,
                    above = (current c, following c) # above c\<rparr> of
              None \<Rightarrow> None
            | Some (es, c2) \<Rightarrow> Some (errs2 @ es, snd (gotoParent c2))))
        = Some (errs2 @ ?kids, c)"
        using cur Cons by (simp del: findErrors.simps)
    qed
  qed
  then obtain k1 where k1: "\<forall>k' \<ge> k1. \<forall>errs2.
      (case children (current c) of
         [] \<Rightarrow> Some (errs2, c)
       | kid # kids \<Rightarrow>
           (case findErrors_cursor k'
                   \<lparr>current = kid, following = kids,
                    above = (current c, following c) # above c\<rparr> of
              None \<Rightarrow> None
            | Some (es, c2) \<Rightarrow> Some (errs2 @ es, snd (gotoParent c2))))
      = Some (errs2 @ ?kids, c)"
    by blast
  \<comment> \<open>the siblings to the right\<close>
  have sibs: "\<exists>k2. \<forall>k' \<ge> k2. \<forall>errs3.
      (case following c of
         [] \<Rightarrow> Some (errs3, c)
       | r # rs \<Rightarrow> findErrors_while k' errs3 (c\<lparr>current := r, following := rs\<rparr>))
      = Some (errs3 @ (if sibs \<noteq> [] then findErrors_loop sibs else []),
              c\<lparr>current := last (n # sibs), following := []\<rparr>)"
  proof (cases sibs)
    case Nil
    with cur show ?thesis by simp
  next
    case (Cons r rs)
    let ?c4 = "c\<lparr>current := r, following := rs\<rparr>"
    have ne: "sibs \<noteq> []" using Cons by simp
    have "current ?c4 # following ?c4 = sibs" using Cons by simp
    from 4(2)[OF ne this] obtain k2 where k2: "\<forall>k' \<ge> k2. \<forall>errs. findErrors_while k' errs ?c4 =
        Some (errs @ findErrors_loop sibs, ?c4\<lparr>current := last sibs, following := []\<rparr>)"
      by blast
    show ?thesis
    proof (intro exI[of _ k2] allI impI)
      fix k' errs3 assume "k2 \<le> k'"
      with k2 have "findErrors_while k' errs3 ?c4 =
        Some (errs3 @ findErrors_loop sibs, ?c4\<lparr>current := last sibs, following := []\<rparr>)"
        by blast
      then show "(case following c of
         [] \<Rightarrow> Some (errs3, c)
       | r # rs \<Rightarrow> findErrors_while k' errs3 (c\<lparr>current := r, following := rs\<rparr>))
        = Some (errs3 @ (if sibs \<noteq> [] then findErrors_loop sibs else []),
              c\<lparr>current := last (n # sibs), following := []\<rparr>)"
        using cur Cons by simp
    qed
  qed
  then obtain k2 where k2: "\<forall>k' \<ge> k2. \<forall>errs3.
      (case following c of
         [] \<Rightarrow> Some (errs3, c)
       | r # rs \<Rightarrow> findErrors_while k' errs3 (c\<lparr>current := r, following := rs\<rparr>))
      = Some (errs3 @ (if sibs \<noteq> [] then findErrors_loop sibs else []),
              c\<lparr>current := last (n # sibs), following := []\<rparr>)"
    by blast
  have "\<forall>k' \<ge> Suc (max k1 k2). \<forall>errs. findErrors_while k' errs c =
      Some (errs @ findErrors_loop (n # sibs), c\<lparr>current := last (n # sibs), following := []\<rparr>)"
  proof (intro allI impI)
    fix k' :: nat and errs assume "Suc (max k1 k2) \<le> k'"
    then obtain j where j: "k' = Suc j" "k1 \<le> j" "k2 \<le> j" by (cases k') auto
    show "findErrors_while k' errs c =
      Some (errs @ findErrors_loop (n # sibs), c\<lparr>current := last (n # sibs), following := []\<rparr>)"
      unfolding j(1) findErrors_while_Suc Let_def
      using k1 j(2) k2 j(3) cur by (simp del: findErrors.simps)
  qed
  then show ?case by blast
qed

lemma findErrors_cursor_agrees:
  "\<exists>k. \<forall>k' \<ge> k. findErrors_cursor k' (walk root) = Some (findErrors [root], walk root)"
proof -
  have "current (walk root) # following (walk root) = [root]"
    by (simp add: walk_def)
  from cursor_agrees(1)[OF this]
  have "\<exists>k. \<forall>k' \<ge> k. findErrors_cursor k' (walk root) =
      Some (findErrors [root], (walk root)\<lparr>current := last [root], following := []\<rparr>)" .
  moreover have "(walk root)\<lparr>current := last [root], following := []\<rparr> = walk root"
    by (simp add: walk_def)
  ultimately show ?thesis by (simp del: findErrors.simps)
qed

text \<open>
  What a round of the loop does for the node under the cursor: an ERROR node gets its
  marker, a missing node gets its marker.
\<close>

lemma findErrors_loop_head_error:
  "type n = ''ERROR'' \<Longrightarrow> errorMarker n \<in> set (findErrors_loop (n # sibs))"
  by simp

lemma findErrors_loop_head_missing:
  "isMissing n \<Longrightarrow> missingMarker n \<in> set (findErrors_loop (n # sibs))"
  by simp

text \<open>
  Every marker of the pass belongs to a node of the forest under the cursor that is an
  ERROR node or a missing node: the pass reports nothing else.
\<close>

lemma nodes_self: "n \<in> set (nodes n)"
  by (cases n) simp

lemma nodes_child: "c \<in> set (children n) \<Longrightarrow> m \<in> set (nodes c) \<Longrightarrow> m \<in> set (nodes n)"
  by (cases n) auto

lemma findErrors_sound_aux:
  shows "m \<in> set (findErrors ns) \<Longrightarrow>
           \<exists>n \<in> set (forest_nodes ns).
             (type n = ''ERROR'' \<and> m = errorMarker n) \<or> (isMissing n \<and> m = missingMarker n)"
    and "m \<in> set (findErrors_loop ns) \<Longrightarrow>
           \<exists>n \<in> set (forest_nodes ns).
             (type n = ''ERROR'' \<and> m = errorMarker n) \<or> (isMissing n \<and> m = missingMarker n)"
proof (induction ns and ns rule: findErrors_findErrors_loop.induct)
  case 1
  then show ?case by simp
next
  case (2 n sibs)
  then show ?case by (simp del: findErrors_loop.simps)
next
  case 3
  then show ?case by simp
next
  case (4 n sibs)
  from 4(3) consider
      (err) "type n = ''ERROR''" "m = errorMarker n"
    | (mis) "isMissing n" "m = missingMarker n"
    | (kid) "children n \<noteq> []" "m \<in> set (findErrors (children n))"
    | (sib) "sibs \<noteq> []" "m \<in> set (findErrors_loop sibs)"
    by (auto simp del: findErrors.simps split: if_splits)
  then show ?case
  proof cases
    case err
    then show ?thesis using nodes_self[of n] by (auto simp: forest_nodes_def)
  next
    case mis
    then show ?thesis using nodes_self[of n] by (auto simp: forest_nodes_def)
  next
    case kid
    with 4(1) obtain k where k: "k \<in> set (forest_nodes (children n))"
      "(type k = ''ERROR'' \<and> m = errorMarker k) \<or> (isMissing k \<and> m = missingMarker k)"
      by blast
    from k(1) obtain c where "c \<in> set (children n)" "k \<in> set (nodes c)"
      by (auto simp: forest_nodes_def)
    then have "k \<in> set (nodes n)" by (rule nodes_child)
    then have "k \<in> set (forest_nodes (n # sibs))" by (simp add: forest_nodes_def)
    with k(2) show ?thesis by blast
  next
    case sib
    with 4(2) obtain k where k: "k \<in> set (forest_nodes sibs)"
      "(type k = ''ERROR'' \<and> m = errorMarker k) \<or> (isMissing k \<and> m = missingMarker k)"
      by blast
    from k(1) have "k \<in> set (forest_nodes (n # sibs))" by (simp add: forest_nodes_def)
    with k(2) show ?thesis by blast
  qed
qed

lemma findErrors_sound:
  "m \<in> set (findErrors ns) \<Longrightarrow>
     \<exists>n \<in> set (forest_nodes ns).
       (type n = ''ERROR'' \<and> m = errorMarker n) \<or> (isMissing n \<and> m = missingMarker n)"
  by (rule findErrors_sound_aux(1))

text \<open>
  The pass reaches every node of the forest under the cursor, since the test of line 33
  never returns: every ERROR node and every missing node gets its marker.
\<close>

lemma forest_nodes_Cons: "forest_nodes (n # ns) = nodes n @ forest_nodes ns"
  by (simp add: forest_nodes_def)

lemma nodes_unfold: "nodes n = n # forest_nodes (children n)"
  by (cases n) (simp add: forest_nodes_def)

lemma findErrors_complete_aux:
  shows "k \<in> set (forest_nodes ns) \<Longrightarrow>
           (type k = ''ERROR'' \<longrightarrow> errorMarker k \<in> set (findErrors ns))
           \<and> (isMissing k \<longrightarrow> missingMarker k \<in> set (findErrors ns))"
    and "k \<in> set (forest_nodes ns) \<Longrightarrow>
           (type k = ''ERROR'' \<longrightarrow> errorMarker k \<in> set (findErrors_loop ns))
           \<and> (isMissing k \<longrightarrow> missingMarker k \<in> set (findErrors_loop ns))"
proof (induction ns and ns rule: findErrors_findErrors_loop.induct)
  case 1
  then show ?case by (simp add: forest_nodes_def)
next
  case (2 n sibs)
  have "\<not> \<not> truthy (hasError_member n)" by simp
  from 2(1)[OF this 2(2)] show ?case by (simp del: findErrors_loop.simps)
next
  case 3
  then show ?case by (simp add: forest_nodes_def)
next
  case (4 n sibs)
  from 4(3) consider (self) "k = n" | (kid) "k \<in> set (forest_nodes (children n))"
    | (sib) "k \<in> set (forest_nodes sibs)"
    by (auto simp: forest_nodes_Cons nodes_unfold)
  then show ?case
  proof cases
    case self
    then show ?thesis by simp
  next
    case kid
    then have ne: "children n \<noteq> []" by (auto simp: forest_nodes_def)
    from 4(1)[OF ne kid] ne show ?thesis by (simp del: findErrors.simps)
  next
    case sib
    then have ne: "sibs \<noteq> []" by (auto simp: forest_nodes_def)
    from 4(2)[OF ne sib] ne show ?thesis by (simp del: findErrors.simps)
  qed
qed

lemma findErrors_complete:
  assumes "k \<in> set (nodes root)"
  shows "(type k = ''ERROR'' \<longrightarrow> errorMarker k \<in> set (findErrors [root]))
         \<and> (isMissing k \<longrightarrow> missingMarker k \<in> set (findErrors [root]))"
  using findErrors_complete_aux(1)[of k "[root]"] assms by (simp add: forest_nodes_def)


lemma findErrors_documentB:
  "findErrors [documentB] =
     [\<lparr>startLineNumber = 2, startColumn = 0, endLineNumber = 2, endColumn = 4,
       message = ''unable to parse'', severity = Error\<rparr>,
      \<lparr>startLineNumber = 3, startColumn = 3, endLineNumber = 3, endColumn = 4,
       message = ''Missing }'', severity = Error\<rparr>]"
  by (simp add: blockA_def errorB_def missingB_def blockB_def documentB_def node_defs
        errorMarker_def missingMarker_def)



text \<open>
  C4: during the syntax pass every node of the tree whose type is \<open>ERROR\<close> yields a
  diagnostic of severity Error with the message \<^verbatim>\<open>unable to parse\<close> and the span of the
  node, and every node flagged missing yields one of severity Error with the message
  \<^verbatim>\<open>Missing\<close> followed by the node's type, at the node's position. The pass yields no
  other diagnostic.
\<close>

theorem findErrors_marker_of_error_and_missing_node:
  "(\<exists>fuel. \<forall>f \<ge> fuel. findErrors_cursor f (walk root) = Some (findErrors [root], walk root))
   \<and> (\<forall>k \<in> set (nodes root).
         (type k = ''ERROR'' \<longrightarrow>
            \<lparr>startLineNumber = row (startPosition k) + 1,
             startColumn = column (startPosition k),
             endLineNumber = row (endPosition k) + 1,
             endColumn = column (endPosition k) + 1,
             message = ''unable to parse'',
             severity = Error\<rparr> \<in> set (findErrors [root]))
         \<and> (isMissing k \<longrightarrow>
            \<lparr>startLineNumber = row (startPosition k) + 1,
             startColumn = column (startPosition k),
             endLineNumber = row (endPosition k) + 1,
             endColumn = column (endPosition k) + 1,
             message = ''Missing '' @ type k,
             severity = Error\<rparr> \<in> set (findErrors [root])))
   \<and> (\<forall>m \<in> set (findErrors [root]).
         severity m = Error
         \<and> (\<exists>k \<in> set (nodes root).
               (type k = ''ERROR'' \<and> message m = ''unable to parse''
                \<or> isMissing k \<and> message m = ''Missing '' @ type k)
               \<and> startLineNumber m = row (startPosition k) + 1
               \<and> startColumn m = column (startPosition k)
               \<and> endLineNumber m = row (endPosition k) + 1
               \<and> endColumn m = column (endPosition k) + 1))"
proof (intro conjI ballI)
  show "\<exists>fuel. \<forall>f \<ge> fuel. findErrors_cursor f (walk root) = Some (findErrors [root], walk root)"
    by (rule findErrors_cursor_agrees)
next
  fix k assume "k \<in> set (nodes root)"
  from findErrors_complete[OF this]
  show "type k = ''ERROR'' \<longrightarrow>
            \<lparr>startLineNumber = row (startPosition k) + 1,
             startColumn = column (startPosition k),
             endLineNumber = row (endPosition k) + 1,
             endColumn = column (endPosition k) + 1,
             message = ''unable to parse'',
             severity = Error\<rparr> \<in> set (findErrors [root])"
    by (simp add: errorMarker_def del: findErrors.simps)
next
  fix k assume "k \<in> set (nodes root)"
  from findErrors_complete[OF this]
  show "isMissing k \<longrightarrow>
            \<lparr>startLineNumber = row (startPosition k) + 1,
             startColumn = column (startPosition k),
             endLineNumber = row (endPosition k) + 1,
             endColumn = column (endPosition k) + 1,
             message = ''Missing '' @ type k,
             severity = Error\<rparr> \<in> set (findErrors [root])"
    by (simp add: missingMarker_def del: findErrors.simps)
next
  fix m assume m: "m \<in> set (findErrors [root])"
  from findErrors_sound[OF m] obtain k where k: "k \<in> set (nodes root)"
    "(type k = ''ERROR'' \<and> m = errorMarker k) \<or> (isMissing k \<and> m = missingMarker k)"
    by (auto simp: forest_nodes_def)
  from k(2) show "severity m = Error"
    by (auto simp: errorMarker_def missingMarker_def)
next
  fix m assume m: "m \<in> set (findErrors [root])"
  from findErrors_sound[OF m] obtain k where k: "k \<in> set (nodes root)"
    "(type k = ''ERROR'' \<and> m = errorMarker k) \<or> (isMissing k \<and> m = missingMarker k)"
    by (auto simp: forest_nodes_def)
  from k(2) have "(type k = ''ERROR'' \<and> message m = ''unable to parse''
                \<or> isMissing k \<and> message m = ''Missing '' @ type k)
               \<and> startLineNumber m = row (startPosition k) + 1
               \<and> startColumn m = column (startPosition k)
               \<and> endLineNumber m = row (endPosition k) + 1
               \<and> endColumn m = column (endPosition k) + 1"
    by (auto simp: errorMarker_def missingMarker_def)
  with k(1) show "\<exists>k \<in> set (nodes root).
               (type k = ''ERROR'' \<and> message m = ''unable to parse''
                \<or> isMissing k \<and> message m = ''Missing '' @ type k)
               \<and> startLineNumber m = row (startPosition k) + 1
               \<and> startColumn m = column (startPosition k)
               \<and> endLineNumber m = row (endPosition k) + 1
               \<and> endColumn m = column (endPosition k) + 1"
    by blast
qed

text \<open>
  An instance: document B. The ERROR region of the second line (row 1, columns 0 to 3)
  and the missing brace of the third (row 2, column 3) yield their diagnostics, and
  these two are all the pass returns.
\<close>

theorem findErrors_marker_of_error_and_missing_node_witness:
  "errorB \<in> set (nodes documentB) \<and> type errorB = ''ERROR''
   \<and> missingB \<in> set (nodes documentB) \<and> isMissing missingB \<and> type missingB = ''}''
   \<and> \<lparr>startLineNumber = 2, startColumn = 0, endLineNumber = 2, endColumn = 4,
       message = ''unable to parse'', severity = Error\<rparr> \<in> set (findErrors [documentB])
   \<and> \<lparr>startLineNumber = 3, startColumn = 3, endLineNumber = 3, endColumn = 4,
       message = ''Missing }'', severity = Error\<rparr> \<in> set (findErrors [documentB])
   \<and> length (findErrors [documentB]) = 2"
proof -
  note t = findErrors_marker_of_error_and_missing_node[of documentB]
  have n: "errorB \<in> set (nodes documentB)" "type errorB = ''ERROR''"
    "missingB \<in> set (nodes documentB)" "isMissing missingB" "type missingB = ''}''"
    by (simp_all add: blockA_def errorB_def missingB_def blockB_def documentB_def node_defs)
  have p: "startPosition errorB = \<lparr>row = 1, column = 0\<rparr>"
    "endPosition errorB = \<lparr>row = 1, column = 3\<rparr>"
    "startPosition missingB = \<lparr>row = 2, column = 3\<rparr>"
    "endPosition missingB = \<lparr>row = 2, column = 3\<rparr>"
    by (simp_all add: errorB_def missingB_def pt_def)
  have eqe: "\<lparr>startLineNumber = row (startPosition errorB) + 1,
             startColumn = column (startPosition errorB),
             endLineNumber = row (endPosition errorB) + 1,
             endColumn = column (endPosition errorB) + 1,
             message = ''unable to parse'',
             severity = Error\<rparr> =
      \<lparr>startLineNumber = 2, startColumn = 0, endLineNumber = 2, endColumn = 4,
       message = ''unable to parse'', severity = Error\<rparr>"
    by (simp add: p)
  have eqm: "\<lparr>startLineNumber = row (startPosition missingB) + 1,
             startColumn = column (startPosition missingB),
             endLineNumber = row (endPosition missingB) + 1,
             endColumn = column (endPosition missingB) + 1,
             message = ''Missing '' @ type missingB,
             severity = Error\<rparr> =
      \<lparr>startLineNumber = 3, startColumn = 3, endLineNumber = 3, endColumn = 4,
       message = ''Missing }'', severity = Error\<rparr>"
    by (simp add: p n(5))
  from t n(1,2) have "\<lparr>startLineNumber = row (startPosition errorB) + 1,
             startColumn = column (startPosition errorB),
             endLineNumber = row (endPosition errorB) + 1,
             endColumn = column (endPosition errorB) + 1,
             message = ''unable to parse'',
             severity = Error\<rparr> \<in> set (findErrors [documentB])"
    by blast
  then have e: "\<lparr>startLineNumber = 2, startColumn = 0, endLineNumber = 2, endColumn = 4,
       message = ''unable to parse'', severity = Error\<rparr> \<in> set (findErrors [documentB])"
    by (simp only: eqe)
  from t n(3,4) have "\<lparr>startLineNumber = row (startPosition missingB) + 1,
             startColumn = column (startPosition missingB),
             endLineNumber = row (endPosition missingB) + 1,
             endColumn = column (endPosition missingB) + 1,
             message = ''Missing '' @ type missingB,
             severity = Error\<rparr> \<in> set (findErrors [documentB])"
    by blast
  then have m: "\<lparr>startLineNumber = 3, startColumn = 3, endLineNumber = 3, endColumn = 4,
       message = ''Missing }'', severity = Error\<rparr> \<in> set (findErrors [documentB])"
    by (simp only: eqm)
  have l: "length (findErrors [documentB]) = 2"
    unfolding findErrors_documentB by simp
  from n e m l show ?thesis by blast
qed

subsection \<open>Positions\<close>

lemmas state_defs =
  mounted_def initialState_def handleEditorDidMount_def
  editComponentCommand_def insertComponent_def addComponentCommand_def

text \<open>The edits \<open>updateComponent\<close> issues for a block that has a node.\<close>

lemma updateComponent_with_node:
  assumes "editorRef s = Some editor" and "getModel editor = Some model"
    and "currentComponent s = Some cur" and "node_sel cur = Some n"
  shows "issuedEdits (updateComponent env component s) =
           \<lparr>range_edit = replaceRange n, text_edit = marshal env component\<rparr>
           # map (\<lambda>ref. \<lparr>range_edit = range_match ref,
                          text_edit = name component @ ''.'' @ template (label component)\<rparr>)
               (findMatches model (name component @ ''.'' @ template (oldLabel n))
                  True False True None False)"
  using assms
  by (simp add: updateComponent_def executeEdits_def setDrawerOpen_def issuedEdits_def Let_def)

lemma provideCodeLenses_ranges:
  assumes "commandRef s = Some cmds" and "parserRef s = Some p"
  shows "\<exists>lenses. provideCodeLenses env s model = Some lenses
           \<and> map range_lens (tl lenses) = map (\<lambda>c. lensRange (node c)) (componentsRef s)"
  using assms by (simp add: provideCodeLenses_def Let_def comp_def)

lemma findErrors_positions:
  assumes "m \<in> set (findErrors c)"
  shows "\<exists>n \<in> set (forest_nodes c).
           startLineNumber m = row (startPosition n) + 1
           \<and> startColumn m = column (startPosition n)
           \<and> endLineNumber m = row (endPosition n) + 1
           \<and> endColumn m = column (endPosition n) + 1"
proof -
  from findErrors_sound[OF assms] obtain n where n: "n \<in> set (forest_nodes c)"
    "(type n = ''ERROR'' \<and> m = errorMarker n) \<or> (isMissing n \<and> m = missingMarker n)"
    by blast
  from n(2) have "startLineNumber m = row (startPosition n) + 1
           \<and> startColumn m = column (startPosition n)
           \<and> endLineNumber m = row (endPosition n) + 1
           \<and> endColumn m = column (endPosition n) + 1"
    by (auto simp: errorMarker_def missingMarker_def)
  with n(1) show ?thesis by blast
qed

lemma oldLabel_blockBar: "oldLabel blockBar = Str ''bar''"
  by (simp add: oldLabel_def childForFieldName_def namedChild_def blockBar_def node_defs)

lemma unmarshal_blockBar:
  "UnmarshalBlock exampleEnv blockBar = \<lparr>name = ''b'', label = Str ''bar'', attributes = ()\<rparr>"
  by (simp add: exampleEnv_def oldLabel_blockBar)
     (simp add: childForFieldName_def blockBar_def leaf_def)

lemma findMatches_linesC:
  "findMatches (textModel linesC) ''b.bar'' True False True None False =
     [\<lparr>range_match = \<lparr>startLineNumber = 2, startColumn = 15,
                       endLineNumber = 2, endColumn = 20\<rparr>\<rparr>]"
  by (simp add: textModel_def linesC_def dq_def lineMatches_def enumerate_eq_zip upt_rec)

lemma editingBar_refs:
  "editorRef editingBar = Some \<lparr>getModel = Some (textModel linesC)\<rparr>"
  "getModel \<lparr>getModel = Some (textModel linesC)\<rparr> = Some (textModel linesC)"
  "currentComponent editingBar =
     Some \<lparr>component_sel = UnmarshalBlock exampleEnv blockBar, node_sel = Some blockBar\<rparr>"
  "node_sel \<lparr>component_sel = UnmarshalBlock exampleEnv blockBar, node_sel = Some blockBar\<rparr>
     = Some blockBar"
  by (simp_all add: editingBar_def state_defs)

text \<open>
  C3 (lines count from 1 and columns from 0 in diagnostics and command ranges; an error
  marker ends one column beyond the node's end, while the range that replaces a node's
  span has an exclusive end column): the second half fails on the code. For the block
  \<open>b\<close> of document C, which ends at column 11, the replacement range that
  \<open>updateComponent\<close> issues ends at column 12, the same convention as the marker of the
  ERROR node of document D (which ends at column 3, its marker at column 4).
\<close>

theorem replacement_end_column_counterexample:
  "range_edit (hd (issuedEdits (updateComponent exampleEnv blockBaz editingBar))) =
     \<lparr>startLineNumber = 1, startColumn = 0, endLineNumber = 1, endColumn = 12\<rparr>
   \<and> endPosition blockBar = \<lparr>row = 0, column = 11\<rparr>
   \<and> endColumn (range_edit (hd (issuedEdits (updateComponent exampleEnv blockBaz editingBar))))
       \<noteq> column (endPosition blockBar)
   \<and> findErrors [documentD] = [errorMarker errorD]
   \<and> endColumn (errorMarker errorD) = column (endPosition errorD) + 1"
proof -
  have "range_edit (hd (issuedEdits (updateComponent exampleEnv blockBaz editingBar)))
      = replaceRange blockBar"
    by (simp add: updateComponent_with_node[OF editingBar_refs])
  moreover have "replaceRange blockBar =
      \<lparr>startLineNumber = 1, startColumn = 0, endLineNumber = 1, endColumn = 12\<rparr>"
    by (simp add: replaceRange_def blockBar_def pt_def)
  moreover have "endPosition blockBar = \<lparr>row = 0, column = 11\<rparr>"
    by (simp add: blockBar_def pt_def)
  moreover have "findErrors [documentD] = [errorMarker errorD]"
    by (simp add: documentD_def errorD_def blockD_def leaf_def)
  moreover have "endColumn (errorMarker errorD) = column (endPosition errorD) + 1"
    by (simp add: errorMarker_def)
  ultimately show ?thesis by simp
qed

text \<open>
  C3, amended: every marker of the syntax pass, the range that replaces a node and the
  range of an edit lens have the line numbers \<open>row + 1\<close> and the start column of the
  node unchanged (counted from 0); the end column of a marker and the end column of the
  replacement range are both the node's end column plus one; only the range of an edit
  lens (the command range) ends at the node's end column itself.
\<close>

theorem node_position_convention:
  "(\<forall>m \<in> set (findErrors c).
      \<exists>n \<in> set (forest_nodes c).
        startLineNumber m = row (startPosition n) + 1
        \<and> startColumn m = column (startPosition n)
        \<and> endLineNumber m = row (endPosition n) + 1
        \<and> endColumn m = column (endPosition n) + 1)
   \<and> (editorRef s = Some editor \<and> getModel editor = Some model
        \<and> currentComponent s = Some cur \<and> node_sel cur = Some n \<longrightarrow>
      range_edit (hd (issuedEdits (updateComponent env component s))) =
        \<lparr>startLineNumber = row (startPosition n) + 1,
         startColumn = column (startPosition n),
         endLineNumber = row (endPosition n) + 1,
         endColumn = column (endPosition n) + 1\<rparr>)
   \<and> (commandRef s' = Some cmds \<and> parserRef s' = Some p \<longrightarrow>
      (\<exists>lenses. provideCodeLenses env s' model' = Some lenses
         \<and> map range_lens (tl lenses) =
             map (\<lambda>c. \<lparr>startLineNumber = row (startPosition (node c)) + 1,
                        startColumn = column (startPosition (node c)),
                        endLineNumber = row (endPosition (node c)) + 1,
                        endColumn = column (endPosition (node c))\<rparr>) (componentsRef s')))"
proof (intro conjI ballI impI)
  fix m assume "m \<in> set (findErrors c)"
  then show "\<exists>n \<in> set (forest_nodes c).
        startLineNumber m = row (startPosition n) + 1
        \<and> startColumn m = column (startPosition n)
        \<and> endLineNumber m = row (endPosition n) + 1
        \<and> endColumn m = column (endPosition n) + 1"
    by (rule findErrors_positions)
next
  assume "editorRef s = Some editor \<and> getModel editor = Some model
        \<and> currentComponent s = Some cur \<and> node_sel cur = Some n"
  then have e: "editorRef s = Some editor" "getModel editor = Some model"
    "currentComponent s = Some cur" "node_sel cur = Some n"
    by simp_all
  have "issuedEdits (updateComponent env component s) =
           \<lparr>range_edit = replaceRange n, text_edit = marshal env component\<rparr>
           # map (\<lambda>ref. \<lparr>range_edit = range_match ref,
                          text_edit = name component @ ''.'' @ template (label component)\<rparr>)
               (findMatches model (name component @ ''.'' @ template (oldLabel n))
                  True False True None False)"
    using e by (rule updateComponent_with_node)
  then show "range_edit (hd (issuedEdits (updateComponent env component s))) =
        \<lparr>startLineNumber = row (startPosition n) + 1,
         startColumn = column (startPosition n),
         endLineNumber = row (endPosition n) + 1,
         endColumn = column (endPosition n) + 1\<rparr>"
    by (simp add: replaceRange_def)
next
  assume "commandRef s' = Some cmds \<and> parserRef s' = Some p"
  then have e: "commandRef s' = Some cmds" "parserRef s' = Some p"
    by simp_all
  have "\<exists>lenses. provideCodeLenses env s' model' = Some lenses
           \<and> map range_lens (tl lenses) = map (\<lambda>c. lensRange (node c)) (componentsRef s')"
    using e by (rule provideCodeLenses_ranges)
  then show "\<exists>lenses. provideCodeLenses env s' model' = Some lenses
         \<and> map range_lens (tl lenses) =
             map (\<lambda>c. \<lparr>startLineNumber = row (startPosition (node c)) + 1,
                        startColumn = column (startPosition (node c)),
                        endLineNumber = row (endPosition (node c)) + 1,
                        endColumn = column (endPosition (node c))\<rparr>) (componentsRef s')"
    by (simp add: lensRange_def)
qed

text \<open>
  An instance: the marker of the ERROR node of document D (rows 0 to 0, columns 0 to 3),
  the replacement of block \<open>b\<close> of document C (row 0, columns 0 to 11), and the lenses
  once document C has been parsed.
\<close>

theorem node_position_convention_witness:
  "(\<exists>n \<in> set (forest_nodes [documentD]).
      startLineNumber (errorMarker errorD) = row (startPosition n) + 1
      \<and> startColumn (errorMarker errorD) = column (startPosition n)
      \<and> endLineNumber (errorMarker errorD) = row (endPosition n) + 1
      \<and> endColumn (errorMarker errorD) = column (endPosition n) + 1)
   \<and> findErrors [documentD] =
       [\<lparr>startLineNumber = 1, startColumn = 0, endLineNumber = 1, endColumn = 4,
         message = ''unable to parse'', severity = Error\<rparr>]
   \<and> range_edit (hd (issuedEdits (updateComponent exampleEnv blockBaz editingBar))) =
       \<lparr>startLineNumber = 1, startColumn = 0, endLineNumber = 1, endColumn = 12\<rparr>
   \<and> (\<exists>lenses.
        provideCodeLenses exampleEnv
          (parserInit exampleEnv exampleParser textC ''0.3'' (mounted linesC))
          (textModel linesC) = Some lenses
        \<and> map range_lens (tl lenses) =
            [\<lparr>startLineNumber = 1, startColumn = 0, endLineNumber = 1, endColumn = 11\<rparr>,
             \<lparr>startLineNumber = 2, startColumn = 0, endLineNumber = 2, endColumn = 23\<rparr>])"
proof -
  let ?s' = "parserInit exampleEnv exampleParser textC ''0.3'' (mounted linesC)"
  note t = node_position_convention[of "[documentD]" editingBar
      "\<lparr>getModel = Some (textModel linesC)\<rparr>" "textModel linesC"
      "\<lparr>component_sel = UnmarshalBlock exampleEnv blockBar, node_sel = Some blockBar\<rparr>"
      blockBar exampleEnv blockBaz ?s' "\<lparr>addComponent = ''1'', editComponent = ''2''\<rparr>"
      exampleParser "textModel linesC"]
  have fe: "findErrors [documentD] = [errorMarker errorD]"
    by (simp add: documentD_def errorD_def blockD_def leaf_def)
  have refs: "commandRef ?s' = Some \<lparr>addComponent = ''1'', editComponent = ''2''\<rparr>"
    "parserRef ?s' = Some exampleParser"
    by (simp_all add: parserInit_def parseComponents_def setModelMarkers_def Let_def state_defs
          del: findErrors.simps)
  have comps: "map node (componentsRef ?s') = [blockBar, blockFoo]"
    by (simp add: parserInit_def parseComponents_def setModelMarkers_def Let_def state_defs
          exampleParser_def direct_child_blocks_def documentC_def comp_def
          del: findErrors.simps)
       (simp add: blockBar_def blockFoo_def)
  have "errorMarker errorD \<in> set (findErrors [documentD])"
    unfolding fe by simp
  with t have 1: "\<exists>n \<in> set (forest_nodes [documentD]).
      startLineNumber (errorMarker errorD) = row (startPosition n) + 1
      \<and> startColumn (errorMarker errorD) = column (startPosition n)
      \<and> endLineNumber (errorMarker errorD) = row (endPosition n) + 1
      \<and> endColumn (errorMarker errorD) = column (endPosition n) + 1"
    by blast
  have 2: "findErrors [documentD] =
       [\<lparr>startLineNumber = 1, startColumn = 0, endLineNumber = 1, endColumn = 4,
         message = ''unable to parse'', severity = Error\<rparr>]"
    unfolding fe by (simp add: errorMarker_def errorD_def pt_def)
  from t editingBar_refs
  have "range_edit (hd (issuedEdits (updateComponent exampleEnv blockBaz editingBar))) =
        \<lparr>startLineNumber = row (startPosition blockBar) + 1,
         startColumn = column (startPosition blockBar),
         endLineNumber = row (endPosition blockBar) + 1,
         endColumn = column (endPosition blockBar) + 1\<rparr>"
    by blast
  then have 3: "range_edit (hd (issuedEdits (updateComponent exampleEnv blockBaz editingBar))) =
       \<lparr>startLineNumber = 1, startColumn = 0, endLineNumber = 1, endColumn = 12\<rparr>"
    by (simp add: blockBar_def pt_def)
  from t refs obtain lenses where l:
    "provideCodeLenses exampleEnv ?s' (textModel linesC) = Some lenses"
    "map range_lens (tl lenses) =
       map (\<lambda>c. \<lparr>startLineNumber = row (startPosition (node c)) + 1,
                  startColumn = column (startPosition (node c)),
                  endLineNumber = row (endPosition (node c)) + 1,
                  endColumn = column (endPosition (node c))\<rparr>) (componentsRef ?s')"
    by blast
  have "map (\<lambda>c. \<lparr>startLineNumber = row (startPosition (node c)) + 1,
                  startColumn = column (startPosition (node c)),
                  endLineNumber = row (endPosition (node c)) + 1,
                  endColumn = column (endPosition (node c))\<rparr>) (componentsRef ?s')
      = map lensRange (map node (componentsRef ?s'))"
    by (simp add: lensRange_def comp_def)
  also have "\<dots> = [\<lparr>startLineNumber = 1, startColumn = 0, endLineNumber = 1, endColumn = 11\<rparr>,
             \<lparr>startLineNumber = 2, startColumn = 0, endLineNumber = 2, endColumn = 23\<rparr>]"
    by (simp add: comps lensRange_def blockBar_def blockFoo_def pt_def)
  finally have 4: "\<exists>lenses.
        provideCodeLenses exampleEnv ?s' (textModel linesC) = Some lenses
        \<and> map range_lens (tl lenses) =
            [\<lparr>startLineNumber = 1, startColumn = 0, endLineNumber = 1, endColumn = 11\<rparr>,
             \<lparr>startLineNumber = 2, startColumn = 0, endLineNumber = 2, endColumn = 23\<rparr>]"
    using l by simp
  from 1 2 3 4 show ?thesis by blast
qed

subsection \<open>The publish cycle\<close>

lemma parseComponents_refs:
  "parserRef (parseComponents env model d s) = parserRef s"
  "editorRef (parseComponents env model d s) = editorRef s"
  "monacoRef (parseComponents env model d s) = monacoRef s"
  by (simp_all add: parseComponents_def setModelMarkers_def Let_def split: option.splits)

lemma parseComponents_markers:
  "modelMarkers (parseComponents env model d s) =
     (case parserRef s of
        None \<Rightarrow> modelMarkers s
      | Some p \<Rightarrow>
          (case editorRef s of
             None \<Rightarrow> modelMarkers s
           | Some editor \<Rightarrow>
               (case getModel editor of
                  None \<Rightarrow> modelMarkers s
                | Some m \<Rightarrow>
                    if monacoRef s
                    then (modelMarkers s)
                      (''ts'' :=
                         findErrors [parse p model]
                         @ provideInfoMarkers env
                             (map (\<lambda>n. \<lparr>node = n, block = UnmarshalBlock env n\<rparr>)
                                (query_component p (parse p model)))
                             (setComponents env
                                (map (\<lambda>n. \<lparr>node = n, block = UnmarshalBlock env n\<rparr>)
                                   (query_component p (parse p model)))))
                    else modelMarkers s)))"
  by (simp add: parseComponents_def setModelMarkers_def Let_def split: option.splits)

text \<open>The sample cycle on document D: one syntax marker, one informational marker.\<close>

lemma findErrors_documentD:
  "findErrors [documentD] =
     [\<lparr>startLineNumber = 1, startColumn = 0, endLineNumber = 1, endColumn = 4,
       message = ''unable to parse'', severity = Error\<rparr>]"
  by (simp add: documentD_def errorD_def blockD_def leaf_def errorMarker_def pt_def)

lemma parse_documentD: "parse exampleParser textD = documentD"
  by (simp add: exampleParser_def textD_def textC_def linesC_def)

lemma components_documentD:
  "map (\<lambda>n. \<lparr>node = n, block = UnmarshalBlock exampleEnv n\<rparr>)
     (query_component exampleParser documentD) =
   [\<lparr>node = blockD, block = \<lparr>name = ''c'', label = Null, attributes = ()\<rparr>\<rparr>]"
proof -
  have "query_component exampleParser documentD = [blockD]"
    by (simp add: exampleParser_def direct_child_blocks_def documentD_def)
       (simp add: errorD_def blockD_def)
  moreover have "UnmarshalBlock exampleEnv blockD =
      \<lparr>name = ''c'', label = Null, attributes = ()\<rparr>"
    by (simp add: exampleEnv_def oldLabel_def childForFieldName_def blockD_def leaf_def)
  ultimately show ?thesis by simp
qed

lemma infos_documentD:
  "provideInfoMarkers exampleEnv
     [\<lparr>node = blockD, block = \<lparr>name = ''c'', label = Null, attributes = ()\<rparr>\<rparr>]
     (setComponents exampleEnv
        [\<lparr>node = blockD, block = \<lparr>name = ''c'', label = Null, attributes = ()\<rparr>\<rparr>]) =
   [\<lparr>startLineNumber = 2, startColumn = 1, endLineNumber = 2, endColumn = 2,
     message = ''unknown component c'', severity = Info\<rparr>]"
  by (simp add: provideInfoMarkers_def exampleEnv_def unknownKindMarker_def blockD_def pt_def)

lemmas documentD_cycle =
  parse_documentD components_documentD infos_documentD findErrors_documentD

lemma readyD_refs:
  "parserRef readyD = Some exampleParser"
  "editorRef readyD = Some \<lparr>getModel = Some (textModel [''= ='', ''c { }''])\<rparr>"
  "getModel \<lparr>getModel = Some (textModel [''= ='', ''c { }''])\<rparr>
     = Some (textModel [''= ='', ''c { }''])"
  "monacoRef readyD"
  by (simp_all add: readyD_def state_defs)

text \<open>
  C5: when a cycle publishes (the grammar is loaded, the editor is mounted and has a
  model), the list handed to \<^verbatim>\<open>setModelMarkers\<close> is the output of the syntax pass followed
  by the output of the semantic pass, and it becomes the marker set of the owner whatever
  the set was before: the markers of the earlier cycle are replaced, not merged.
\<close>

theorem parseComponents_publishes:
  assumes "parserRef s = Some p" and "editorRef s = Some editor"
    and "getModel editor = Some m" and "monacoRef s"
  shows "let components = map (\<lambda>n. \<lparr>node = n, block = UnmarshalBlock env n\<rparr>)
                            (query_component p (parse p model));
             errs = findErrors [parse p model];
             infos = provideInfoMarkers env components (setComponents env components)
         in modelMarkers (parseComponents env model duration s) ''ts'' = errs @ infos
            \<and> modelMarkers (parseComponents env model duration s) =
                (modelMarkers s)(''ts'' := errs @ infos)
            \<and> modelMarkers (parseComponents env model duration (s\<lparr>modelMarkers := previous\<rparr>)) ''ts''
                = errs @ infos"
  using assms by (simp add: parseComponents_markers Let_def del: findErrors.simps)

theorem parseComponents_publishes_witness:
  "modelMarkers readyD ''ts'' = [staleMarker]
   \<and> modelMarkers (parseComponents exampleEnv textD ''0.2'' readyD) ''ts'' =
       [\<lparr>startLineNumber = 1, startColumn = 0, endLineNumber = 1, endColumn = 4,
         message = ''unable to parse'', severity = Error\<rparr>,
        \<lparr>startLineNumber = 2, startColumn = 1, endLineNumber = 2, endColumn = 2,
         message = ''unknown component c'', severity = Info\<rparr>]"
proof -
  note t = parseComponents_publishes[OF readyD_refs, of exampleEnv textD "''0.2''"]
  have "modelMarkers readyD ''ts'' = [staleMarker]"
    by (simp add: readyD_def)
  moreover from t have "modelMarkers (parseComponents exampleEnv textD ''0.2'' readyD) ''ts'' =
       [\<lparr>startLineNumber = 1, startColumn = 0, endLineNumber = 1, endColumn = 4,
         message = ''unable to parse'', severity = Error\<rparr>,
        \<lparr>startLineNumber = 2, startColumn = 1, endLineNumber = 2, endColumn = 2,
         message = ''unknown component c'', severity = Info\<rparr>]"
    by (simp add: Let_def documentD_cycle del: findErrors.simps)
  ultimately show ?thesis by (rule conjI)
qed

text \<open>
  C6: with no parser (\<^verbatim>\<open>parserRef.current\<close> is null) \<open>parseComponents\<close> returns the state
  as it is: no markers, no component records, no error. When the grammar has been loaded,
  the effect stores the parser and runs the cycle: the component records and the elapsed
  time are published, and the markers too once the editor is mounted.
\<close>

theorem parseComponents_without_parser:
  assumes "parserRef s = None"
  shows "parseComponents env model duration s = s
         \<and> (let s' = parserInit env p model' duration' s;
                 components = map (\<lambda>n. \<lparr>node = n, block = UnmarshalBlock env n\<rparr>)
                                (query_component p (parse p model'))
             in parserRef s' = Some p
                \<and> componentsRef s' = components
                \<and> contextComponents s' = components
                \<and> parsingTime s' = duration'
                \<and> (editorRef s = Some editor \<and> getModel editor = Some m \<and> monacoRef s \<longrightarrow>
                     modelMarkers s' ''ts'' =
                       findErrors [parse p model']
                       @ provideInfoMarkers env components (setComponents env components)))"
  using assms
  by (auto simp add: parseComponents_def parserInit_def setModelMarkers_def Let_def
        simp del: findErrors.simps split: option.splits)

theorem parseComponents_without_parser_witness:
  "parseComponents exampleEnv textD ''0.1'' (mounted [''= ='', ''c { }''])
     = mounted [''= ='', ''c { }'']
   \<and> componentsRef (parserInit exampleEnv exampleParser textD ''0.3'' (mounted [''= ='', ''c { }'']))
       = [\<lparr>node = blockD, block = \<lparr>name = ''c'', label = Null, attributes = ()\<rparr>\<rparr>]
   \<and> parsingTime (parserInit exampleEnv exampleParser textD ''0.3'' (mounted [''= ='', ''c { }'']))
       = ''0.3''
   \<and> modelMarkers (parserInit exampleEnv exampleParser textD ''0.3'' (mounted [''= ='', ''c { }'']))
        ''ts'' =
       [\<lparr>startLineNumber = 1, startColumn = 0, endLineNumber = 1, endColumn = 4,
         message = ''unable to parse'', severity = Error\<rparr>,
        \<lparr>startLineNumber = 2, startColumn = 1, endLineNumber = 2, endColumn = 2,
         message = ''unknown component c'', severity = Info\<rparr>]"
proof -
  let ?s = "mounted [''= ='', ''c { }'']"
  have h: "parserRef ?s = None"
    by (simp add: state_defs)
  have e: "editorRef ?s = Some \<lparr>getModel = Some (textModel [''= ='', ''c { }''])\<rparr>
      \<and> getModel \<lparr>getModel = Some (textModel [''= ='', ''c { }''])\<rparr>
          = Some (textModel [''= ='', ''c { }''])
      \<and> monacoRef ?s"
    by (simp add: state_defs)
  note t = parseComponents_without_parser[OF h, of exampleEnv textD "''0.1''" exampleParser
      textD "''0.3''" "\<lparr>getModel = Some (textModel [''= ='', ''c { }''])\<rparr>"
      "textModel [''= ='', ''c { }'']"]
  from t e show ?thesis
    by (simp add: Let_def documentD_cycle del: findErrors.simps)
qed

text \<open>
  C9: a second cycle on the same text, with the same collaborators, leaves the published
  markers as the first cycle set them; and the markers a cycle publishes are the same from
  any two states in which the same grammar is loaded and the editor is mounted, whatever
  else the states hold and whatever the clock says, as long as the codec, the semantic
  rules and the registry returned for the components of the text are the same.
\<close>

lemma parseComponents_twice_markers:
  "modelMarkers (parseComponents env model d2 (parseComponents env model d1 s))
     = modelMarkers (parseComponents env model d1 s)"
proof (cases "parserRef s")
  case None
  then show ?thesis by (simp add: parseComponents_def)
next
  case (Some p)
  let ?s1 = "parseComponents env model d1 s"
  let ?X = "findErrors [parse p model]
            @ provideInfoMarkers env
                (map (\<lambda>n. \<lparr>node = n, block = UnmarshalBlock env n\<rparr>)
                   (query_component p (parse p model)))
                (setComponents env
                   (map (\<lambda>n. \<lparr>node = n, block = UnmarshalBlock env n\<rparr>)
                      (query_component p (parse p model))))"
  show ?thesis
  proof (cases "\<exists>editor m. editorRef s = Some editor \<and> getModel editor = Some m \<and> monacoRef s")
    case True
    then obtain editor m where e: "editorRef s = Some editor" "getModel editor = Some m"
      "monacoRef s"
      by blast
    have 1: "modelMarkers ?s1 = (modelMarkers s)(''ts'' := ?X)"
      using Some e by (simp add: parseComponents_markers del: findErrors.simps)
    have 2: "modelMarkers (parseComponents env model d2 ?s1) = (modelMarkers ?s1)(''ts'' := ?X)"
      using Some e
      by (simp add: parseComponents_markers[of env model d2 ?s1] parseComponents_refs
            del: findErrors.simps)
    show ?thesis by (simp add: 1 2 del: findErrors.simps)
  next
    case False
    have 1: "modelMarkers (parseComponents env model d s0) = modelMarkers s0"
      if "parserRef s0 = parserRef s" "editorRef s0 = editorRef s" "monacoRef s0 = monacoRef s"
      for d s0
      using False that
      by (auto simp add: parseComponents_markers[of env model d s0] simp del: findErrors.simps
            split: option.splits)
    show ?thesis by (simp add: 1 parseComponents_refs)
  qed
qed

theorem parseComponents_republish:
  "modelMarkers (parseComponents env model d2 (parseComponents env model d1 s))
     = modelMarkers (parseComponents env model d1 s)
   \<and> (parserRef s = Some p \<and> parserRef s' = Some p
        \<and> editorRef s = Some editor \<and> getModel editor = Some m \<and> monacoRef s
        \<and> editorRef s' = Some editor' \<and> getModel editor' = Some m' \<and> monacoRef s'
        \<and> UnmarshalBlock env' = UnmarshalBlock env \<and> markersFor env' = markersFor env
        \<and> setComponents env' (map (\<lambda>n. \<lparr>node = n, block = UnmarshalBlock env n\<rparr>)
                                 (query_component p (parse p model)))
            = setComponents env (map (\<lambda>n. \<lparr>node = n, block = UnmarshalBlock env n\<rparr>)
                                   (query_component p (parse p model)))
      \<longrightarrow> modelMarkers (parseComponents env' model d' s') ''ts''
            = modelMarkers (parseComponents env model d s) ''ts'')"
proof (intro conjI impI)
  show "modelMarkers (parseComponents env model d2 (parseComponents env model d1 s))
     = modelMarkers (parseComponents env model d1 s)"
    by (rule parseComponents_twice_markers)
next
  assume a: "parserRef s = Some p \<and> parserRef s' = Some p
        \<and> editorRef s = Some editor \<and> getModel editor = Some m \<and> monacoRef s
        \<and> editorRef s' = Some editor' \<and> getModel editor' = Some m' \<and> monacoRef s'
        \<and> UnmarshalBlock env' = UnmarshalBlock env \<and> markersFor env' = markersFor env
        \<and> setComponents env' (map (\<lambda>n. \<lparr>node = n, block = UnmarshalBlock env n\<rparr>)
                                 (query_component p (parse p model)))
            = setComponents env (map (\<lambda>n. \<lparr>node = n, block = UnmarshalBlock env n\<rparr>)
                                   (query_component p (parse p model)))"
  then show "modelMarkers (parseComponents env' model d' s') ''ts''
            = modelMarkers (parseComponents env model d s) ''ts''"
    by (simp add: parseComponents_markers provideInfoMarkers_def del: findErrors.simps)
qed

text \<open>
  An instance on document D: the second cycle republishes the two markers of the first,
  and a cycle from the freshly initialised state (other clock reading, no stale marker,
  other component records) publishes the same two.
\<close>

theorem parseComponents_republish_witness:
  "modelMarkers (parseComponents exampleEnv textD ''0.4''
      (parseComponents exampleEnv textD ''0.2'' readyD))
     = modelMarkers (parseComponents exampleEnv textD ''0.2'' readyD)
   \<and> modelMarkers (parseComponents exampleEnv textD ''0.2'' readyD) ''ts'' =
       [\<lparr>startLineNumber = 1, startColumn = 0, endLineNumber = 1, endColumn = 4,
         message = ''unable to parse'', severity = Error\<rparr>,
        \<lparr>startLineNumber = 2, startColumn = 1, endLineNumber = 2, endColumn = 2,
         message = ''unknown component c'', severity = Info\<rparr>]
   \<and> modelMarkers (parseComponents exampleEnv textD ''0.9''
        ((mounted [''= ='', ''c { }''])\<lparr>parserRef := Some exampleParser\<rparr>)) ''ts''
     = modelMarkers (parseComponents exampleEnv textD ''0.2'' readyD) ''ts''"
proof -
  let ?s' = "(mounted [''= ='', ''c { }''])\<lparr>parserRef := Some exampleParser\<rparr>"
  note t = parseComponents_republish[of exampleEnv textD "''0.4''" "''0.2''" readyD
      exampleParser ?s' "\<lparr>getModel = Some (textModel [''= ='', ''c { }''])\<rparr>"
      "textModel [''= ='', ''c { }'']" "\<lparr>getModel = Some (textModel [''= ='', ''c { }''])\<rparr>"
      "textModel [''= ='', ''c { }'']" exampleEnv "''0.9''" "''0.2''"]
  have refs: "parserRef ?s' = Some exampleParser"
    "editorRef ?s' = Some \<lparr>getModel = Some (textModel [''= ='', ''c { }''])\<rparr>"
    "monacoRef ?s'"
    by (simp_all add: state_defs)
  from t have 1: "modelMarkers (parseComponents exampleEnv textD ''0.4''
      (parseComponents exampleEnv textD ''0.2'' readyD))
     = modelMarkers (parseComponents exampleEnv textD ''0.2'' readyD)"
    by (rule conjunct1)
  have 2: "modelMarkers (parseComponents exampleEnv textD ''0.2'' readyD) ''ts'' =
       [\<lparr>startLineNumber = 1, startColumn = 0, endLineNumber = 1, endColumn = 4,
         message = ''unable to parse'', severity = Error\<rparr>,
        \<lparr>startLineNumber = 2, startColumn = 1, endLineNumber = 2, endColumn = 2,
         message = ''unknown component c'', severity = Info\<rparr>]"
    unfolding parseComponents_markers
    by (simp add: readyD_refs documentD_cycle del: findErrors.simps)
  from t refs readyD_refs have 3: "modelMarkers (parseComponents exampleEnv textD ''0.9'' ?s') ''ts''
     = modelMarkers (parseComponents exampleEnv textD ''0.2'' readyD) ''ts''"
    by simp
  from 1 2 3 show ?thesis by blast
qed

subsection \<open>The patch synthesizer\<close>

text \<open>
  The end of a buffer: on the sample text model, the last line and its maximal column
  are the position behind the last character of the document.
\<close>

lemma textModel_end_of_document:
  "ls \<noteq> [] \<Longrightarrow>
     getLineCount (textModel ls) = length ls
     \<and> getLineMaxColumn (textModel ls) (getLineCount (textModel ls)) = length (last ls) + 1"
  by (cases ls rule: rev_cases) (simp_all add: textModel_def nth_append)

text \<open>
  C2: for a block with a prior node, \<open>updateComponent\<close> executes exactly one transaction.
  Its first edit replaces the span of the node by the marshalled block; the others, one
  for each match of the literal, case-sensitive search for \<^verbatim>\<open>name.oldLabel\<close> in the
  editable range (the flags passed to \<^verbatim>\<open>findMatches\<close>), replace the range of that match
  by \<^verbatim>\<open>name.newLabel\<close>. Nothing else changes but the drawer, which closes.
\<close>

theorem updateComponent_replace:
  assumes "editorRef s = Some editor" and "getModel editor = Some model"
    and "currentComponent s = Some cur" and "node_sel cur = Some n"
  shows "updateComponent env component s =
           Inr (s\<lparr>executedEdits := executedEdits s @
                    [(''configuration-editor'',
                      \<lparr>range_edit =
                         \<lparr>startLineNumber = row (startPosition n) + 1,
                          startColumn = column (startPosition n),
                          endLineNumber = row (endPosition n) + 1,
                          endColumn = column (endPosition n) + 1\<rparr>,
                       text_edit = marshal env component\<rparr>
                      # map (\<lambda>ref. \<lparr>range_edit = range_match ref,
                                     text_edit = name component @ ''.'' @ template (label component)\<rparr>)
                          (findMatches model (name component @ ''.'' @ template (oldLabel n))
                             True False True None False))],
                  isDrawerOpen := False\<rparr>)"
  using assms
  by (simp add: updateComponent_def executeEdits_def setDrawerOpen_def replaceRange_def Let_def)

text \<open>
  An instance: in document C the label of block \<open>b\<close> changes from \<open>bar\<close> to \<open>baz\<close>.
  The transaction holds the replacement of the block and one edit for the reference
  \<open>b.bar\<close> in the second line.
\<close>

theorem updateComponent_replace_witness:
  "updateComponent exampleEnv blockBaz editingBar =
     Inr (editingBar
            \<lparr>executedEdits :=
               [(''configuration-editor'',
                 [\<lparr>range_edit = \<lparr>startLineNumber = 1, startColumn = 0,
                                  endLineNumber = 1, endColumn = 12\<rparr>,
                   text_edit = ''b '' @ dq @ ''baz'' @ dq @ '' { }''\<rparr>,
                  \<lparr>range_edit = \<lparr>startLineNumber = 2, startColumn = 15,
                                  endLineNumber = 2, endColumn = 20\<rparr>,
                   text_edit = ''b.baz''\<rparr>])],
             isDrawerOpen := False\<rparr>)"
proof -
  note t = updateComponent_replace[OF editingBar_refs, of exampleEnv blockBaz]
  have "executedEdits editingBar = []"
    by (simp add: editingBar_def state_defs)
  moreover have "marshal exampleEnv blockBaz = ''b '' @ dq @ ''baz'' @ dq @ '' { }''"
    by (simp add: exampleEnv_def blockBaz_def)
  moreover have "name blockBaz @ ''.'' @ template (oldLabel blockBar) = ''b.bar''"
    "name blockBaz @ ''.'' @ template (label blockBaz) = ''b.baz''"
    by (simp_all add: blockBaz_def oldLabel_blockBar)
  moreover have "startPosition blockBar = \<lparr>row = 0, column = 0\<rparr>"
    "endPosition blockBar = \<lparr>row = 0, column = 11\<rparr>"
    by (simp_all add: blockBar_def pt_def)
  ultimately show ?thesis
    using t by (simp add: findMatches_linesC)
qed

text \<open>
  C7: for a block without a prior node, \<open>updateComponent\<close> executes one transaction with
  a single edit: an empty range at the last line of the buffer and that line's maximal
  column (the end of the document, \<open>textModel_end_of_document\<close>), with the marshalled
  block followed by a newline.
\<close>

theorem updateComponent_insert:
  assumes "editorRef s = Some editor" and "getModel editor = Some model"
    and "currentComponent s = Some cur" and "node_sel cur = None"
  shows "updateComponent env component s =
           Inr (s\<lparr>executedEdits := executedEdits s @
                    [(''configuration-editor'',
                      [\<lparr>range_edit =
                          \<lparr>startLineNumber = getLineCount model,
                           startColumn = getLineMaxColumn model (getLineCount model),
                           endLineNumber = getLineCount model,
                           endColumn = getLineMaxColumn model (getLineCount model)\<rparr>,
                        text_edit = marshal env component @ [CHR 0x0A]\<rparr>])],
                  isDrawerOpen := False\<rparr>)"
  using assms by (simp add: updateComponent_def executeEdits_def setDrawerOpen_def Let_def)

text \<open>
  An instance: a new block \<open>c\<close> is appended to document C, whose last line is the
  second and has 23 characters.
\<close>

theorem updateComponent_insert_witness:
  "updateComponent exampleEnv blockNew (insertComponent blockNew (mounted linesC)) =
     Inr ((insertComponent blockNew (mounted linesC))
            \<lparr>executedEdits :=
               [(''configuration-editor'',
                 [\<lparr>range_edit = \<lparr>startLineNumber = 2, startColumn = 24,
                                  endLineNumber = 2, endColumn = 24\<rparr>,
                   text_edit = ''c '' @ dq @ ''new'' @ dq @ '' { }'' @ [CHR 0x0A]\<rparr>])],
             isDrawerOpen := False\<rparr>)
   \<and> length linesC = 2 \<and> length (last linesC) = 23"
proof -
  let ?s = "insertComponent blockNew (mounted linesC)"
  have h: "editorRef ?s = Some \<lparr>getModel = Some (textModel linesC)\<rparr>"
    "getModel \<lparr>getModel = Some (textModel linesC)\<rparr> = Some (textModel linesC)"
    "currentComponent ?s = Some \<lparr>component_sel = blockNew, node_sel = None\<rparr>"
    "node_sel \<lparr>component_sel = blockNew, node_sel = None\<rparr> = None"
    by (simp_all add: state_defs)
  note t = updateComponent_insert[OF h, of exampleEnv blockNew]
  have l: "length linesC = 2" "length (last linesC) = 23"
    by (simp_all add: linesC_def dq_def)
  have "getLineCount (textModel linesC) = 2"
    "getLineMaxColumn (textModel linesC) 2 = 24"
    by (simp_all add: textModel_def linesC_def dq_def)
  moreover have "executedEdits ?s = []"
    by (simp add: state_defs)
  moreover have "marshal exampleEnv blockNew = ''c '' @ dq @ ''new'' @ dq @ '' { }''"
    by (simp add: exampleEnv_def blockNew_def)
  ultimately show ?thesis
    using t l by simp
qed

text \<open>
  C10: the string searched for is the name of the edited block (the argument of
  \<open>updateComponent\<close>) joined by a dot with the label read from the node. The search and
  the rewriting are not guarded by any test: when the label is unchanged, every match is
  replaced by the text that was searched for. The edits do not depend on the block that
  was being edited (\<^verbatim>\<open>currentComponent.component\<close>) nor on anything of the node but its
  span and its label field, so a reference made with a former name of the block is not
  looked for.
\<close>

theorem updateComponent_reference_search:
  assumes "editorRef s = Some editor" and "getModel editor = Some model"
    and "currentComponent s = Some cur" and "node_sel cur = Some n"
  shows "tl (issuedEdits (updateComponent env component s)) =
           map (\<lambda>ref. \<lparr>range_edit = range_match ref,
                        text_edit = name component @ ''.'' @ template (label component)\<rparr>)
             (findMatches model (name component @ ''.'' @ template (oldLabel n))
                True False True None False)
         \<and> (label component = oldLabel n \<longrightarrow>
              (\<forall>e \<in> set (tl (issuedEdits (updateComponent env component s))).
                 text_edit e = name component @ ''.'' @ template (oldLabel n)))
         \<and> (\<forall>old n'. startPosition n' = startPosition n \<and> endPosition n' = endPosition n
                \<and> oldLabel n' = oldLabel n \<longrightarrow>
              issuedEdits (updateComponent env component
                 (s\<lparr>currentComponent := Some \<lparr>component_sel = old, node_sel = Some n'\<rparr>\<rparr>))
              = issuedEdits (updateComponent env component s))"
proof -
  let ?refs = "findMatches model (name component @ ''.'' @ template (oldLabel n))
                 True False True None False"
  have edits: "issuedEdits (updateComponent env component s) =
      \<lparr>range_edit = replaceRange n, text_edit = marshal env component\<rparr>
      # map (\<lambda>ref. \<lparr>range_edit = range_match ref,
                     text_edit = name component @ ''.'' @ template (label component)\<rparr>) ?refs"
    using assms by (rule updateComponent_with_node)
  have other: "issuedEdits (updateComponent env component
                 (s\<lparr>currentComponent := Some \<lparr>component_sel = old, node_sel = Some n'\<rparr>\<rparr>))
              = issuedEdits (updateComponent env component s)"
    if "startPosition n' = startPosition n" "endPosition n' = endPosition n"
       "oldLabel n' = oldLabel n" for old n'
  proof -
    have "issuedEdits (updateComponent env component
            (s\<lparr>currentComponent := Some \<lparr>component_sel = old, node_sel = Some n'\<rparr>\<rparr>)) =
      \<lparr>range_edit = replaceRange n', text_edit = marshal env component\<rparr>
      # map (\<lambda>ref. \<lparr>range_edit = range_match ref,
                     text_edit = name component @ ''.'' @ template (label component)\<rparr>)
          (findMatches model (name component @ ''.'' @ template (oldLabel n'))
             True False True None False)"
      using assms(1,2)
        updateComponent_with_node[of "s\<lparr>currentComponent := Some \<lparr>component_sel = old, node_sel = Some n'\<rparr>\<rparr>"
          editor model "\<lparr>component_sel = old, node_sel = Some n'\<rparr>" n' env component]
      by simp
    moreover have "replaceRange n' = replaceRange n"
      using that by (simp add: replaceRange_def)
    ultimately show ?thesis using that(3) edits by simp
  qed
  have same: "\<forall>e \<in> set (tl (issuedEdits (updateComponent env component s))).
      text_edit e = name component @ ''.'' @ template (oldLabel n)"
    if "label component = oldLabel n"
    using that by (simp add: edits)
  from edits have first: "tl (issuedEdits (updateComponent env component s)) =
      map (\<lambda>ref. \<lparr>range_edit = range_match ref,
                     text_edit = name component @ ''.'' @ template (label component)\<rparr>) ?refs"
    by simp
  from first same other show ?thesis by blast
qed

text \<open>
  An instance: block \<open>b\<close> of document C is saved with its label unchanged. The reference
  \<open>b.bar\<close> in the second line is replaced by \<open>b.bar\<close>, and the edits are the same when
  the block under edit is recorded under another name.
\<close>

theorem updateComponent_reference_search_witness:
  "tl (issuedEdits (updateComponent exampleEnv (UnmarshalBlock exampleEnv blockBar) editingBar)) =
     [\<lparr>range_edit = \<lparr>startLineNumber = 2, startColumn = 15, endLineNumber = 2, endColumn = 20\<rparr>,
       text_edit = ''b.bar''\<rparr>]
   \<and> issuedEdits (updateComponent exampleEnv (UnmarshalBlock exampleEnv blockBar)
        (editingBar\<lparr>currentComponent :=
           Some \<lparr>component_sel = \<lparr>name = ''renamed'', label = Str ''bar'', attributes = ()\<rparr>,
                 node_sel = Some blockBar\<rparr>\<rparr>))
     = issuedEdits (updateComponent exampleEnv (UnmarshalBlock exampleEnv blockBar) editingBar)"
proof -
  note t = updateComponent_reference_search[OF editingBar_refs,
      of exampleEnv "UnmarshalBlock exampleEnv blockBar"]
  from t have "tl (issuedEdits (updateComponent exampleEnv (UnmarshalBlock exampleEnv blockBar) editingBar)) =
     map (\<lambda>ref. \<lparr>range_edit = range_match ref,
                  text_edit = name (UnmarshalBlock exampleEnv blockBar) @ ''.'' @
                    template (label (UnmarshalBlock exampleEnv blockBar))\<rparr>)
       (findMatches (textModel linesC)
          (name (UnmarshalBlock exampleEnv blockBar) @ ''.'' @ template (oldLabel blockBar))
          True False True None False)"
    by blast
  then have a: "tl (issuedEdits (updateComponent exampleEnv (UnmarshalBlock exampleEnv blockBar) editingBar)) =
     [\<lparr>range_edit = \<lparr>startLineNumber = 2, startColumn = 15, endLineNumber = 2, endColumn = 20\<rparr>,
       text_edit = ''b.bar''\<rparr>]"
    by (simp add: unmarshal_blockBar oldLabel_blockBar findMatches_linesC)
  from t have b: "issuedEdits (updateComponent exampleEnv (UnmarshalBlock exampleEnv blockBar)
        (editingBar\<lparr>currentComponent :=
           Some \<lparr>component_sel = \<lparr>name = ''renamed'', label = Str ''bar'', attributes = ()\<rparr>,
                 node_sel = Some blockBar\<rparr>\<rparr>))
     = issuedEdits (updateComponent exampleEnv (UnmarshalBlock exampleEnv blockBar) editingBar)"
    by blast
  from a b show ?thesis by (rule conjI)
qed

end
